theory Spec2Isabelle
  imports
    Complex_Main
    "HOL-Library.Char_ord"
    "HOL-Library.List_Lexorder"
    "HOL-Library.Multiset"
    "HOL-Library.Sublist"
begin

section \<open>PaymeCrypto balance aggregation (Backend-flask/app.py)\<close>

text \<open>
  A shallow embedding of the balance-aggregation core of \<^verbatim>\<open>Backend-flask/app.py\<close>:
  the two CoinGecko caches (\<^verbatim>\<open>cached_markets\<close>, \<^verbatim>\<open>cached_coin_detail\<close>), the contract
  resolver (\<^verbatim>\<open>find_contract_for_coin_id\<close>), the balance helpers and
  \<^verbatim>\<open>compute_balance_for_chain\<close>.

  Modelling decisions, all of them visible in the definitions below:
  \<^item> Every value that reaches the code from JSON (provider answers, the explicit token
    entries) is a \<open>json\<close> value, and the Python operations applied to it (\<^verbatim>\<open>.get\<close>,
    truthiness, \<^verbatim>\<open>or\<close>, \<^verbatim>\<open>float\<close>, \<^verbatim>\<open>.upper\<close>, subscripting, iteration) are functions that
    return \<open>Inl\<close> of the Python exception where Python raises.
  \<^item> A Python float is a \<open>pyfloat\<close>: a finite value, a signed zero, an infinity or NaN.
    The arithmetic on floats (rounding, overflow) is the runtime's: the sums, the products
    and the conversions to \<^verbatim>\<open>float\<close> that the code performs are fields of \<open>env\<close>, and
    nothing is assumed about them.
  \<^item> Python strings are \<open>string\<close> (lists of 8-bit characters); \<^verbatim>\<open>str.upper\<close> and
    \<^verbatim>\<open>str.strip\<close> are modelled on ASCII.
  \<^item> The external collaborators (HTTP provider, RPC clients, clock, configuration) are
    the fields of the record \<open>env\<close>: a snapshot of what each of them answers during
    one request. A collaborator that raises, times out or answers with an error status
    is \<open>None\<close>.
  \<^item> The two module-level caches are the record \<open>caches\<close>, passed through every
    function that reads or writes them.
\<close>

subsection \<open>Python floats\<close>

text \<open>
  \<open>Fin x\<close> is the finite float of value \<open>x\<close> (so \<open>Fin 0\<close> is \<^verbatim>\<open>0.0\<close>), \<open>NegZero\<close> is
  \<^verbatim>\<open>-0.0\<close>, \<open>PInf\<close> and \<open>NInf\<close> are the infinities. A float is falsy exactly when it is
  one of the two zeros; NaN and the infinities are truthy.
\<close>

datatype pyfloat = Fin real | NegZero | PInf | NInf | NaN

definition is_zero :: "pyfloat \<Rightarrow> bool" where
  "is_zero x = (x = Fin 0 \<or> x = NegZero)"

subsection \<open>Python values and the operations the code applies to them\<close>

text \<open>
  A decoded JSON number is an \<^verbatim>\<open>int\<close> (\<open>JInt\<close>) or a \<^verbatim>\<open>float\<close> (\<open>JFloat\<close>); the decoder
  of \<^verbatim>\<open>r.json()\<close> yields an infinity for a literal such as \<^verbatim>\<open>1e400\<close> and accepts
  \<^verbatim>\<open>NaN\<close> and \<^verbatim>\<open>Infinity\<close>.
\<close>

datatype json =
    JNull
  | JBool bool
  | JInt int
  | JFloat pyfloat
  | JStr string
  | JArr "json list"
  | JObj "(string \<times> json) list"

text \<open>
  \<open>JObj\<close> holds the items of a \<^verbatim>\<open>dict\<close> in iteration order. The exceptions the modelled
  code can raise carry the object they were raised on. \<open>KeyError0\<close> is \<^verbatim>\<open>KeyError(0)\<close>,
  raised by \<^verbatim>\<open>x[0]\<close> on a dictionary (the keys of a decoded JSON object are strings);
  \<open>NotSubscriptable\<close>, \<open>NotIterable\<close>, \<open>Unhashable\<close> and \<open>FloatTypeError\<close> are Python's
  \<^verbatim>\<open>TypeError\<close>,
  \<open>FloatValueError\<close> is the \<^verbatim>\<open>ValueError\<close> of \<^verbatim>\<open>float\<close> on a string, \<open>FloatOverflow\<close> the
  \<^verbatim>\<open>OverflowError\<close> of \<^verbatim>\<open>float\<close> on an int too large for a float, and \<open>BadSlice\<close> is
  what \<^verbatim>\<open>x[:6]\<close> raises on a value that is neither a string nor a list.
\<close>

datatype py_exn =
    AttributeError json string
  | KeyError0
  | NotSubscriptable json
  | NotIterable json
  | Unhashable json
  | FloatTypeError json
  | FloatValueError string
  | FloatOverflow int
  | IndexError json
  | BadSlice json

fun truthy :: "json \<Rightarrow> bool" where
  "truthy JNull = False"
| "truthy (JBool b) = b"
| "truthy (JInt i) = (i \<noteq> 0)"
| "truthy (JFloat x) = (\<not> is_zero x)"
| "truthy (JStr s) = (s \<noteq> [])"
| "truthy (JArr xs) = (xs \<noteq> [])"
| "truthy (JObj kvs) = (kvs \<noteq> [])"

definition py_or :: "json \<Rightarrow> json \<Rightarrow> json" where
  "py_or a b = (if truthy a then a else b)"

definition dict_get :: "(string \<times> json) list \<Rightarrow> string \<Rightarrow> json \<Rightarrow> json" where
  "dict_get kvs k d = (case map_of kvs k of None \<Rightarrow> d | Some v \<Rightarrow> v)"

text \<open>\<^verbatim>\<open>x.get(k, d)\<close>: only a dict has the method.\<close>

fun py_get :: "json \<Rightarrow> string \<Rightarrow> json \<Rightarrow> py_exn + json" where
  "py_get (JObj kvs) k d = Inr (dict_get kvs k d)"
| "py_get x k d = Inl (AttributeError x ''get'')"

text \<open>
  \<^verbatim>\<open>float(x)\<close>. A float is returned as it is. Converting an int and parsing a string are
  the runtime's: the parameter \<open>conv\<close> returns \<open>None\<close> where \<^verbatim>\<open>float\<close> raises
  \<^verbatim>\<open>OverflowError\<close>, the parameter \<open>parse\<close> returns \<open>None\<close> where it raises \<^verbatim>\<open>ValueError\<close>.
\<close>

fun py_float ::
  "(int \<Rightarrow> pyfloat option) \<Rightarrow> (string \<Rightarrow> pyfloat option) \<Rightarrow> json \<Rightarrow> py_exn + pyfloat" where
  "py_float conv parse (JFloat x) = Inr x"
| "py_float conv parse (JInt i) =
     (case conv i of None \<Rightarrow> Inl (FloatOverflow i) | Some x \<Rightarrow> Inr x)"
| "py_float conv parse (JBool b) = Inr (Fin (if b then 1 else 0))"
| "py_float conv parse (JStr s) =
     (case parse s of None \<Rightarrow> Inl (FloatValueError s) | Some x \<Rightarrow> Inr x)"
| "py_float conv parse x = Inl (FloatTypeError x)"

definition upper_char :: "char \<Rightarrow> char" where
  "upper_char c =
     (case map_of (zip ''abcdefghijklmnopqrstuvwxyz'' ''ABCDEFGHIJKLMNOPQRSTUVWXYZ'') c of
        None \<Rightarrow> c | Some u \<Rightarrow> u)"

definition py_upper :: "string \<Rightarrow> string" where
  "py_upper s = map upper_char s"

text \<open>\<^verbatim>\<open>x.upper()\<close>: only a string has the method.\<close>

fun py_upper_of :: "json \<Rightarrow> py_exn + string" where
  "py_upper_of (JStr s) = Inr (py_upper s)"
| "py_upper_of x = Inl (AttributeError x ''upper'')"

definition is_space :: "char \<Rightarrow> bool" where
  "is_space c = (of_char c \<in> {9, 10, 11, 12, 13, 28, 29, 30, 31, 32 :: nat})"

definition py_strip :: "string \<Rightarrow> string" where
  "py_strip s = rev (dropWhile is_space (rev (dropWhile is_space s)))"

text \<open>\<^verbatim>\<open>",".join(xs)\<close>\<close>

fun join_comma :: "string list \<Rightarrow> string" where
  "join_comma [] = []"
| "join_comma [x] = x"
| "join_comma (x # y # ys) = x @ '','' @ join_comma (y # ys)"

text \<open>
  \<^verbatim>\<open>list(dict.fromkeys(xs))\<close>: the keys in the order of their first insertion.
\<close>

fun fromkeys :: "'a list \<Rightarrow> 'a list \<Rightarrow> 'a list" where
  "fromkeys acc [] = acc"
| "fromkeys acc (x # xs) = fromkeys (if x \<in> set acc then acc else acc @ [x]) xs"

definition dedup :: "'a list \<Rightarrow> 'a list" where
  "dedup xs = fromkeys [] xs"

subsection \<open>Configuration tables\<close>

definition PLATFORM_TO_CHAIN_KEY :: "(string \<times> string) list" where
  "PLATFORM_TO_CHAIN_KEY =
     [(''ethereum'', ''ethereum''),
      (''binance-smart-chain'', ''bsc''),
      (''polygon-pos'', ''polygon''),
      (''avalanche'', ''avax''),
      (''arbitrum-one'', ''arbitrum''),
      (''optimistic-ethereum'', ''optimism''),
      (''fantom'', ''fantom''),
      (''solana'', ''solana'')]"

definition NATIVE_COIN_TO_CHAIN :: "(string \<times> string) list" where
  "NATIVE_COIN_TO_CHAIN =
     [(''ethereum'', ''ethereum''),
      (''binancecoin'', ''bsc''),
      (''polygon'', ''polygon''),
      (''avalanche-2'', ''avax''),
      (''arbitrum'', ''arbitrum''),
      (''optimism'', ''optimism''),
      (''fantom'', ''fantom''),
      (''solana'', ''solana'')]"

definition CACHE_TTL :: real where
  "CACHE_TTL = 12"

definition PREFER :: "string list" where
  "PREFER = [''ethereum'', ''binance-smart-chain'', ''polygon-pos'', ''avalanche'',
             ''arbitrum-one'', ''optimistic-ethereum'']"

subsection \<open>The external collaborators and the module state\<close>

text \<open>
  \<open>rpc_urls\<close> is the dictionary \<^verbatim>\<open>RPC_URLS\<close> as it stands during the request (the reload of
  the chain configuration inside \<^verbatim>\<open>get_web3\<close> is taken to leave it as it is).
  \<open>web3_handle k\<close> says whether \<^verbatim>\<open>get_web3\<close> obtains a client for a configured key \<open>k\<close>
  (from \<^verbatim>\<open>_WEB3_PROVIDERS\<close> or by creating it). The \<open>rpc_\<close> fields are the calls made
  inside the \<^verbatim>\<open>try\<close> blocks of the balance helpers, \<open>None\<close> when anything there raises;
  \<open>http_\<close> fields are the provider's answers, \<open>None\<close> when the request or the decoding of
  its body raises or (for \<open>http_contract\<close>) the status is not ok; \<open>exn_str\<close> is \<^verbatim>\<open>str(e)\<close>.

  The float arithmetic of the runtime: \<open>f_add\<close> and \<open>f_mul\<close> are \<^verbatim>\<open>+\<close> and \<^verbatim>\<open>*\<close> on two
  floats; \<open>float_of_int\<close> and \<open>float_of_str\<close> are \<^verbatim>\<open>float\<close> on an int and on a string;
  \<open>float_of_wei w\<close> is \<^verbatim>\<open>float(w3.fromWei(w, "ether"))\<close>, \<open>float_of_units raw d\<close> is
  \<^verbatim>\<open>float(raw) / (10 ** d)\<close> and \<open>float_of_lamports l\<close> is \<^verbatim>\<open>l / 1e9\<close>. Each conversion is
  \<open>None\<close> where the expression raises.
\<close>

record env =
  rpc_urls :: "string \<rightharpoonup> string"
  web3_handle :: "string \<Rightarrow> bool"
  rpc_get_balance :: "string \<Rightarrow> string \<Rightarrow> nat option"
  rpc_decimals :: "string \<Rightarrow> json \<Rightarrow> nat option"
  rpc_balance_of :: "string \<Rightarrow> json \<Rightarrow> string \<Rightarrow> nat option"
  solana_available :: bool
  solana_get_balance :: "string \<Rightarrow> nat option"
  time_now :: real
  http_markets :: "string \<Rightarrow> nat \<Rightarrow> json option"
  http_coin_detail :: "string \<Rightarrow> json option"
  http_contract :: "string \<Rightarrow> json \<Rightarrow> json option"
  f_add :: "pyfloat \<Rightarrow> pyfloat \<Rightarrow> pyfloat"
  f_mul :: "pyfloat \<Rightarrow> pyfloat \<Rightarrow> pyfloat"
  float_of_int :: "int \<Rightarrow> pyfloat option"
  float_of_str :: "string \<Rightarrow> pyfloat option"
  float_of_wei :: "nat \<Rightarrow> pyfloat option"
  float_of_units :: "nat \<Rightarrow> nat \<Rightarrow> pyfloat option"
  float_of_lamports :: "nat \<Rightarrow> pyfloat option"
  exn_str :: "py_exn \<Rightarrow> string"

record cache_entry =
  entry_ts :: real
  entry_data :: json

record caches =
  markets_cache :: "string \<rightharpoonup> cache_entry"
  coin_detail_cache :: "string \<rightharpoonup> cache_entry"

subsection \<open>CoinGecko helpers\<close>

definition markets_key :: "string list \<Rightarrow> string" where
  "markets_key ids = join_comma (sort ids)"

definition fetch_markets :: "env \<Rightarrow> caches \<Rightarrow> string list \<Rightarrow> json \<times> caches" where
  "fetch_markets e st ids =
     (case http_markets e (markets_key ids) (length ids) of
        None \<Rightarrow> (JArr [], st)
      | Some d \<Rightarrow>
          (d, st\<lparr>markets_cache :=
                   (markets_cache st)(markets_key ids \<mapsto> \<lparr>entry_ts = time_now e, entry_data = d\<rparr>)\<rparr>))"

definition cached_markets :: "env \<Rightarrow> caches \<Rightarrow> string list \<Rightarrow> json \<times> caches" where
  "cached_markets e st ids =
     (if ids = [] then (JArr [], st)
      else
        (case markets_cache st (markets_key ids) of
           None \<Rightarrow> fetch_markets e st ids
         | Some entry \<Rightarrow>
             if time_now e - entry_ts entry < CACHE_TTL then (entry_data entry, st)
             else fetch_markets e st ids))"

definition fetch_coin_detail :: "env \<Rightarrow> caches \<Rightarrow> string \<Rightarrow> json \<times> caches" where
  "fetch_coin_detail e st coin_id =
     (case http_coin_detail e coin_id of
        None \<Rightarrow> (JNull, st)
      | Some d \<Rightarrow>
          (d, st\<lparr>coin_detail_cache :=
                   (coin_detail_cache st)(coin_id \<mapsto> \<lparr>entry_ts = time_now e, entry_data = d\<rparr>)\<rparr>))"

definition cached_coin_detail :: "env \<Rightarrow> caches \<Rightarrow> string \<Rightarrow> json \<times> caches" where
  "cached_coin_detail e st coin_id =
     (case coin_detail_cache st coin_id of
        None \<Rightarrow> fetch_coin_detail e st coin_id
      | Some entry \<Rightarrow>
          if time_now e - entry_ts entry < 60 then (entry_data entry, st)
          else fetch_coin_detail e st coin_id)"


text \<open>
  \<^verbatim>\<open>find_contract_for_coin_id\<close>. The dictionary it returns,
  \<^verbatim>\<open>{"contract": val, "platform": p}\<close>, is the pair \<open>(val, p)\<close>.
\<close>

fun prefer_loop :: "json \<Rightarrow> string list \<Rightarrow> py_exn + (json \<times> string) option" where
  "prefer_loop platforms [] = Inr None"
| "prefer_loop platforms (p # ps) =
     (case py_get platforms p JNull of
        Inl ex \<Rightarrow> Inl ex
      | Inr val \<Rightarrow> if truthy val then Inr (Some (val, p)) else prefer_loop platforms ps)"

fun first_item :: "(string \<times> json) list \<Rightarrow> (json \<times> string) option" where
  "first_item [] = None"
| "first_item ((p, val) # kvs) = (if truthy val then Some (val, p) else first_item kvs)"

fun items_loop :: "json \<Rightarrow> py_exn + (json \<times> string) option" where
  "items_loop (JObj kvs) = Inr (first_item kvs)"
| "items_loop x = Inl (AttributeError x ''items'')"

definition find_contract_for_coin_id ::
  "env \<Rightarrow> caches \<Rightarrow> string \<Rightarrow> (py_exn + (json \<times> string) option) \<times> caches" where
  "find_contract_for_coin_id e st coin_id =
     (case cached_coin_detail e st coin_id of
        (detail, st') \<Rightarrow>
          if \<not> truthy detail then (Inr None, st')
          else
            (case py_get detail ''platforms'' JNull of
               Inl ex \<Rightarrow> (Inl ex, st')
             | Inr pv \<Rightarrow>
                 (case prefer_loop (py_or pv (JObj [])) PREFER of
                    Inl ex \<Rightarrow> (Inl ex, st')
                  | Inr (Some found) \<Rightarrow> (Inr (Some found), st')
                  | Inr None \<Rightarrow> (items_loop (py_or pv (JObj [])), st'))))"

subsection \<open>Balance helpers\<close>

text \<open>
  \<^verbatim>\<open>get_web3\<close>: \<^verbatim>\<open>chain_key not in RPC_URLS\<close> raises on an unhashable key and is true of
  every key that is not a string. The client it returns is named by its chain key. In the
  three balance helpers the conversion of the amount stands inside the \<^verbatim>\<open>try\<close> block, so
  a conversion that raises makes the helper return \<^verbatim>\<open>None\<close>.
\<close>

fun get_web3 :: "env \<Rightarrow> json \<Rightarrow> py_exn + string option" where
  "get_web3 e (JStr k) =
     Inr (if rpc_urls e k = None then None else if web3_handle e k then Some k else None)"
| "get_web3 e (JArr xs) = Inl (Unhashable (JArr xs))"
| "get_web3 e (JObj kvs) = Inl (Unhashable (JObj kvs))"
| "get_web3 e x = Inr None"

definition get_native_evm_balance ::
  "env \<Rightarrow> string \<Rightarrow> string \<Rightarrow> py_exn + pyfloat option" where
  "get_native_evm_balance e chain_key address =
     (case get_web3 e (JStr chain_key) of
        Inl ex \<Rightarrow> Inl ex
      | Inr None \<Rightarrow> Inr None
      | Inr (Some w3) \<Rightarrow>
          (case rpc_get_balance e w3 address of
             None \<Rightarrow> Inr None
           | Some bal_wei \<Rightarrow> Inr (float_of_wei e bal_wei)))"

definition get_erc20_balance ::
  "env \<Rightarrow> json \<Rightarrow> json \<Rightarrow> string \<Rightarrow> py_exn + pyfloat option" where
  "get_erc20_balance e chain_key contract_address address =
     (case get_web3 e chain_key of
        Inl ex \<Rightarrow> Inl ex
      | Inr None \<Rightarrow> Inr None
      | Inr (Some w3) \<Rightarrow>
          (let decimals = (case rpc_decimals e w3 contract_address of None \<Rightarrow> 18 | Some d \<Rightarrow> d)
           in case rpc_balance_of e w3 contract_address address of
                None \<Rightarrow> Inr None
              | Some raw \<Rightarrow> Inr (float_of_units e raw decimals)))"

definition get_solana_balance :: "env \<Rightarrow> string \<Rightarrow> pyfloat option" where
  "get_solana_balance e address =
     (if \<not> solana_available e then None
      else (case solana_get_balance e address of
              None \<Rightarrow> None
            | Some lamports \<Rightarrow> float_of_lamports e lamports))"

subsection \<open>The result of \<^verbatim>\<open>compute_balance_for_chain\<close>\<close>

text \<open>
  The native dictionary and the token dictionaries the function builds, field by field.
  \<open>n_price_change_24h\<close> is \<open>None\<close> where the dictionary has no such key (the placeholder of
  an unknown chain). A field that holds a value passed through from JSON is a \<open>json\<close>.

  The \<^verbatim>\<open>usd_value\<close> of the native line is \<^verbatim>\<open>(native_bal or 0) * (price or 0)\<close>: the int
  \<^verbatim>\<open>0\<close> (\<open>Int0\<close>) when both factors are replaced by the int \<^verbatim>\<open>0\<close>, and a float otherwise.
\<close>

datatype py_number = Int0 | Flt pyfloat

record native_line =
  n_symbol :: string
  n_balance :: pyfloat
  n_usd_price :: "pyfloat option"
  n_usd_value :: py_number
  n_price_change_24h :: "json option"

record token_line =
  tk_coin_id :: "string option"
  tk_symbol :: json
  tk_name :: json
  tk_contract :: json
  tk_platform :: "string option"
  tk_chain :: json
  tk_balance :: pyfloat
  tk_usd_price :: "pyfloat option"
  tk_price_change_24h :: json
  tk_usd_value :: pyfloat
  tk_logo :: json

record result =
  res_chain :: string
  res_address :: string
  res_native :: "native_line option"
  res_tokens :: "token_line list"
  res_errors :: "string list"
  res_total_usd :: pyfloat

text \<open>
  On an optional float \<open>x\<close> (\<open>None\<close> is \<^verbatim>\<open>None\<close>): \<open>dflt0 x\<close> is
  \<^verbatim>\<open>x if x is not None else 0.0\<close>, \<open>or0 x\<close> is \<^verbatim>\<open>x or 0.0\<close> and \<open>or_int0 x\<close> is \<^verbatim>\<open>x or 0\<close>.
  The last two replace a zero as well, \<^verbatim>\<open>-0.0\<close> included.
\<close>

definition dflt0 :: "pyfloat option \<Rightarrow> pyfloat" where
  "dflt0 x = (case x of None \<Rightarrow> Fin 0 | Some v \<Rightarrow> v)"

definition or0 :: "pyfloat option \<Rightarrow> pyfloat" where
  "or0 x = (case x of None \<Rightarrow> Fin 0 | Some v \<Rightarrow> if is_zero v then Fin 0 else v)"

definition or_int0 :: "pyfloat option \<Rightarrow> py_number" where
  "or_int0 x = (case x of None \<Rightarrow> Int0 | Some v \<Rightarrow> if is_zero v then Int0 else Flt v)"

text \<open>
  \<^verbatim>\<open>(native_bal or 0) * (price or 0)\<close>: the product of the int \<^verbatim>\<open>0\<close> with itself is the
  int \<^verbatim>\<open>0\<close>; in a product with a float the int \<^verbatim>\<open>0\<close> is converted to \<^verbatim>\<open>0.0\<close>.
\<close>

definition native_value :: "env \<Rightarrow> pyfloat option \<Rightarrow> pyfloat option \<Rightarrow> py_number" where
  "native_value e bal price =
     (case or_int0 bal of
        Int0 \<Rightarrow> (case or_int0 price of Int0 \<Rightarrow> Int0 | Flt p \<Rightarrow> Flt (f_mul e (Fin 0) p))
      | Flt b \<Rightarrow> (case or_int0 price of Int0 \<Rightarrow> Flt (f_mul e b (Fin 0)) | Flt p \<Rightarrow> Flt (f_mul e b p)))"

text \<open>\<^verbatim>\<open>float(m.get("current_price", 0) or 0)\<close>\<close>

definition current_price_of :: "env \<Rightarrow> json \<Rightarrow> py_exn + pyfloat" where
  "current_price_of e m =
     (case py_get m ''current_price'' (JInt 0) of
        Inl ex \<Rightarrow> Inl ex
      | Inr v \<Rightarrow> py_float (float_of_int e) (float_of_str e) (py_or v (JInt 0)))"

text \<open>\<^verbatim>\<open>x[0]\<close>\<close>

fun py_first :: "json \<Rightarrow> py_exn + json" where
  "py_first (JArr (x # xs)) = Inr x"
| "py_first (JArr []) = Inl (IndexError (JArr []))"
| "py_first (JStr (c # cs)) = Inr (JStr [c])"
| "py_first (JStr []) = Inl (IndexError (JStr []))"
| "py_first (JObj kvs) = Inl KeyError0"
| "py_first x = Inl (NotSubscriptable x)"

subsection \<open>Step 1: the native line\<close>

text \<open>The first key of \<^verbatim>\<open>NATIVE_COIN_TO_CHAIN\<close> whose value is the chain.\<close>

definition native_coin_id_of :: "string \<Rightarrow> string option" where
  "native_coin_id_of chain =
     map_option fst (find (\<lambda>(cid, ch). ch = chain) NATIVE_COIN_TO_CHAIN)"

definition native_evm :: "env \<Rightarrow> caches \<Rightarrow> string \<Rightarrow> string \<Rightarrow> (py_exn + native_line) \<times> caches" where
  "native_evm e st chain address =
     (case get_native_evm_balance e chain address of
        Inl ex \<Rightarrow> (Inl ex, st)
      | Inr native_bal \<Rightarrow>
          (case native_coin_id_of chain of
             None \<Rightarrow>
               (Inr \<lparr>n_symbol = py_upper chain, n_balance = dflt0 native_bal, n_usd_price = None,
                     n_usd_value = native_value e native_bal None,
                     n_price_change_24h = Some JNull\<rparr>, st)
           | Some native_coin_id \<Rightarrow>
               (case cached_markets e st [native_coin_id] of
                  (markets, st') \<Rightarrow>
                    if truthy markets then
                      (case py_first markets of
                         Inl ex \<Rightarrow> (Inl ex, st')
                       | Inr m \<Rightarrow>
                           (case current_price_of e m of
                              Inl ex \<Rightarrow> (Inl ex, st')
                            | Inr price \<Rightarrow>
                                (case py_get m ''price_change_percentage_24h'' JNull of
                                   Inl ex \<Rightarrow> (Inl ex, st')
                                 | Inr price_change \<Rightarrow>
                                     (Inr \<lparr>n_symbol = py_upper native_coin_id,
                                           n_balance = dflt0 native_bal,
                                           n_usd_price = Some price,
                                           n_usd_value = native_value e native_bal (Some price),
                                           n_price_change_24h = Some price_change\<rparr>, st'))))
                    else
                      (Inr \<lparr>n_symbol = py_upper native_coin_id, n_balance = dflt0 native_bal,
                            n_usd_price = None, n_usd_value = native_value e native_bal None,
                            n_price_change_24h = Some JNull\<rparr>, st'))))"

definition native_solana :: "env \<Rightarrow> caches \<Rightarrow> string \<Rightarrow> (py_exn + native_line) \<times> caches" where
  "native_solana e st address =
     (let sol_bal = get_solana_balance e address in
      case cached_markets e st [''solana''] of
        (m, st') \<Rightarrow>
          if truthy m then
            (case py_first m of
               Inl ex \<Rightarrow> (Inl ex, st')
             | Inr m0 \<Rightarrow>
                 (case current_price_of e m0 of
                    Inl ex \<Rightarrow> (Inl ex, st')
                  | Inr price \<Rightarrow>
                      (case py_get m0 ''price_change_percentage_24h'' JNull of
                         Inl ex \<Rightarrow> (Inl ex, st')
                       | Inr price_change \<Rightarrow>
                           (Inr \<lparr>n_symbol = ''SOL'', n_balance = dflt0 sol_bal,
                                 n_usd_price = Some price,
                                 n_usd_value = native_value e sol_bal (Some price),
                                 n_price_change_24h = Some price_change\<rparr>, st'))))
          else
            (Inr \<lparr>n_symbol = ''SOL'', n_balance = dflt0 sol_bal, n_usd_price = None,
                  n_usd_value = native_value e sol_bal None,
                  n_price_change_24h = Some JNull\<rparr>, st'))"

text \<open>The body of the first \<^verbatim>\<open>try\<close> block.\<close>

definition native_block :: "env \<Rightarrow> caches \<Rightarrow> string \<Rightarrow> string \<Rightarrow> (py_exn + native_line) \<times> caches" where
  "native_block e st chain address =
     (if rpc_urls e chain \<noteq> None \<and> chain \<noteq> ''solana'' then native_evm e st chain address
      else if chain = ''solana'' then native_solana e st address
      else
        (Inr \<lparr>n_symbol = py_upper chain, n_balance = Fin 0, n_usd_price = None,
              n_usd_value = Flt (Fin 0), n_price_change_24h = None\<rparr>, st))"

text \<open>The \<^verbatim>\<open>except\<close> clause of the block: what it leaves in \<^verbatim>\<open>native\<close> and in \<^verbatim>\<open>errors\<close>.\<close>

definition native_of :: "py_exn + native_line \<Rightarrow> native_line option" where
  "native_of r = (case r of Inl ex \<Rightarrow> None | Inr n \<Rightarrow> Some n)"

definition native_errors :: "env \<Rightarrow> py_exn + native_line \<Rightarrow> string list" where
  "native_errors e r =
     (case r of Inl ex \<Rightarrow> [''native_balance_error: '' @ exn_str e ex] | Inr n \<Rightarrow> [])"

subsection \<open>Step 2: the coin-id driven token lines\<close>

text \<open>
  \<^verbatim>\<open>list(dict.fromkeys([str(cid).strip() for cid in (coin_ids or []) if cid]))\<close>
\<close>

definition clean_coin_ids :: "string list \<Rightarrow> string list" where
  "clean_coin_ids coin_ids = dedup (map py_strip (filter (\<lambda>cid. cid \<noteq> []) coin_ids))"

text \<open>The values a \<^verbatim>\<open>for\<close> loop visits.\<close>

fun py_iter :: "json \<Rightarrow> py_exn + json list" where
  "py_iter (JArr xs) = Inr xs"
| "py_iter (JObj kvs) = Inr (map (\<lambda>kv. JStr (fst kv)) kvs)"
| "py_iter (JStr s) = Inr (map (\<lambda>c. JStr [c]) s)"
| "py_iter x = Inl (NotIterable x)"

text \<open>
  The dictionary \<^verbatim>\<open>markets\<close> is only ever read at a coin id, a string, so the model keeps
  its string keys; a key that is a number or a boolean is stored by Python and never found,
  and a list or a dict as a key raises.
\<close>

definition markets_step :: "(string \<rightharpoonup> json) \<Rightarrow> json \<Rightarrow> py_exn + (string \<rightharpoonup> json)" where
  "markets_step mk m =
     (case py_get m ''id'' JNull of
        Inl ex \<Rightarrow> Inl ex
      | Inr i \<Rightarrow>
          if truthy i then
            (case i of
               JStr k \<Rightarrow> Inr (mk(k \<mapsto> m))
             | JArr xs \<Rightarrow> Inl (Unhashable i)
             | JObj kvs \<Rightarrow> Inl (Unhashable i)
             | _ \<Rightarrow> Inr mk)
          else Inr mk)"

fun markets_loop :: "(string \<rightharpoonup> json) \<Rightarrow> json list \<Rightarrow> py_exn + (string \<rightharpoonup> json)" where
  "markets_loop mk [] = Inr mk"
| "markets_loop mk (m # ms) =
     (case markets_step mk m of Inl ex \<Rightarrow> Inl ex | Inr mk' \<Rightarrow> markets_loop mk' ms)"

definition build_markets :: "json \<Rightarrow> py_exn + (string \<rightharpoonup> json)" where
  "build_markets market_data =
     (case py_iter market_data of Inl ex \<Rightarrow> Inl ex | Inr ms \<Rightarrow> markets_loop Map.empty ms)"

text \<open>\<^verbatim>\<open>markets.get(coin_id)\<close>\<close>

definition markets_get :: "(string \<rightharpoonup> json) \<Rightarrow> string \<Rightarrow> json" where
  "markets_get mk coin_id = (case mk coin_id of None \<Rightarrow> JNull | Some m \<Rightarrow> m)"

definition json_of_key :: "string option \<Rightarrow> json" where
  "json_of_key k = (case k of None \<Rightarrow> JNull | Some s \<Rightarrow> JStr s)"

text \<open>The branch \<^verbatim>\<open>if found and found.get("contract")\<close> (lines 417 to 438).\<close>

definition resolved_line ::
  "env \<Rightarrow> string \<Rightarrow> (string \<rightharpoonup> json) \<Rightarrow> string \<Rightarrow> json \<Rightarrow> string \<Rightarrow> py_exn + token_line" where
  "resolved_line e address mk coin_id contract_addr platform =
     (let chain_key = map_of PLATFORM_TO_CHAIN_KEY platform in
      case (case chain_key of
              None \<Rightarrow> Inr None
            | Some k \<Rightarrow>
                if k \<noteq> [] \<and> rpc_urls e k \<noteq> None
                then get_erc20_balance e (JStr k) contract_addr address
                else Inr None) of
        Inl ex \<Rightarrow> Inl ex
      | Inr balance \<Rightarrow>
          (let m = py_or (markets_get mk coin_id) (JObj []) in
           case current_price_of e m of
             Inl ex \<Rightarrow> Inl ex
           | Inr usd_price \<Rightarrow>
               (case py_get m ''price_change_percentage_24h'' JNull of
                  Inl ex \<Rightarrow> Inl ex
                | Inr price_chg \<Rightarrow>
                    (case py_get m ''symbol'' JNull of
                       Inl ex \<Rightarrow> Inl ex
                     | Inr symb \<Rightarrow>
                         (case py_upper_of (py_or symb (JStr [])) of
                            Inl ex \<Rightarrow> Inl ex
                          | Inr up \<Rightarrow>
                              (case py_get m ''name'' JNull of
                                 Inl ex \<Rightarrow> Inl ex
                               | Inr nm \<Rightarrow>
                                   (case py_get m ''image'' JNull of
                                      Inl ex \<Rightarrow> Inl ex
                                    | Inr img \<Rightarrow>
                                        Inr \<lparr>tk_coin_id = Some coin_id,
                                             tk_symbol = JStr (if up \<noteq> [] then up else py_upper coin_id),
                                             tk_name = py_or nm (JStr coin_id),
                                             tk_contract = contract_addr,
                                             tk_platform = Some platform,
                                             tk_chain = json_of_key chain_key,
                                             tk_balance = dflt0 balance,
                                             tk_usd_price = Some usd_price,
                                             tk_price_change_24h = price_chg,
                                             tk_usd_value =
                                               f_mul e (or0 balance) (or0 (Some usd_price)),
                                             tk_logo = img\<rparr>)))))))"

text \<open>
  The \<^verbatim>\<open>else\<close> branch (lines 440 to 454). The price and
  the entries \<^verbatim>\<open>"symbol"\<close>, \<^verbatim>\<open>"price_change_24h"\<close> and \<^verbatim>\<open>"logo"\<close> are guarded by
  \<^verbatim>\<open>if m\<close>; the entry \<^verbatim>\<open>"name": m.get("name") or coin_id\<close> is not.
\<close>

definition unresolved_line :: "env \<Rightarrow> (string \<rightharpoonup> json) \<Rightarrow> string \<Rightarrow> py_exn + token_line" where
  "unresolved_line e mk coin_id =
     (let m = markets_get mk coin_id in
      case (if truthy m then map_sum id Some (current_price_of e m) else Inr None) of
        Inl ex \<Rightarrow> Inl ex
      | Inr price \<Rightarrow>
          (case (if truthy m
                 then (case py_get m ''symbol'' JNull of
                         Inl ex \<Rightarrow> Inl ex
                       | Inr symb \<Rightarrow> py_upper_of (py_or symb (JStr coin_id)))
                 else Inr (py_upper coin_id)) of
             Inl ex \<Rightarrow> Inl ex
           | Inr up \<Rightarrow>
               (case py_get m ''name'' JNull of
                  Inl ex \<Rightarrow> Inl ex
                | Inr nm \<Rightarrow>
                    (case (if truthy m then py_get m ''price_change_percentage_24h'' JNull
                           else Inr JNull) of
                       Inl ex \<Rightarrow> Inl ex
                     | Inr price_chg \<Rightarrow>
                         (case (if truthy m then py_get m ''image'' JNull else Inr JNull) of
                            Inl ex \<Rightarrow> Inl ex
                          | Inr img \<Rightarrow>
                              Inr \<lparr>tk_coin_id = Some coin_id,
                                   tk_symbol = JStr up,
                                   tk_name = py_or nm (JStr coin_id),
                                   tk_contract = JNull,
                                   tk_platform = None,
                                   tk_chain = JNull,
                                   tk_balance = Fin 0,
                                   tk_usd_price = price,
                                   tk_price_change_24h = price_chg,
                                   tk_usd_value = Fin 0,
                                   tk_logo = img\<rparr>)))))"

text \<open>
  One iteration of \<^verbatim>\<open>for coin_id in coin_ids\<close>: \<open>Inr None\<close> is \<^verbatim>\<open>continue\<close>, \<open>Inl\<close> an
  exception, which nothing around the loop catches.
\<close>

definition coin_token ::
  "env \<Rightarrow> caches \<Rightarrow> string \<Rightarrow> string \<Rightarrow> (string \<rightharpoonup> json) \<Rightarrow> string
     \<Rightarrow> (py_exn + token_line option) \<times> caches" where
  "coin_token e st chain address mk coin_id =
     (if map_of NATIVE_COIN_TO_CHAIN coin_id = Some chain then (Inr None, st)
      else
        (case find_contract_for_coin_id e st coin_id of
           (Inl ex, st') \<Rightarrow> (Inl ex, st')
         | (Inr None, st') \<Rightarrow> (map_sum id Some (unresolved_line e mk coin_id), st')
         | (Inr (Some (contract_addr, platform)), st') \<Rightarrow>
             if truthy contract_addr
             then (map_sum id Some (resolved_line e address mk coin_id contract_addr platform), st')
             else (map_sum id Some (unresolved_line e mk coin_id), st')))"

fun coin_loop ::
  "env \<Rightarrow> string \<Rightarrow> string \<Rightarrow> (string \<rightharpoonup> json) \<Rightarrow> caches \<Rightarrow> token_line list \<Rightarrow> string list
     \<Rightarrow> (py_exn + token_line list) \<times> caches" where
  "coin_loop e chain address mk st toks [] = (Inr toks, st)"
| "coin_loop e chain address mk st toks (coin_id # rest) =
     (case coin_token e st chain address mk coin_id of
        (Inl ex, st') \<Rightarrow> (Inl ex, st')
      | (Inr None, st') \<Rightarrow> coin_loop e chain address mk st' toks rest
      | (Inr (Some line), st') \<Rightarrow> coin_loop e chain address mk st' (toks @ [line]) rest)"

text \<open>Lines 404 to 454: the cleaned id list, the \<^verbatim>\<open>markets\<close> dictionary and the loop.\<close>

definition coin_section ::
  "env \<Rightarrow> caches \<Rightarrow> string \<Rightarrow> string \<Rightarrow> string list \<Rightarrow> (py_exn + token_line list) \<times> caches" where
  "coin_section e st chain address coin_ids =
     (let ids = clean_coin_ids coin_ids in
      case (if ids \<noteq> []
            then (case cached_markets e st ids of
                    (market_data, st') \<Rightarrow> (build_markets market_data, st'))
            else (Inr Map.empty, st)) of
        (Inl ex, st') \<Rightarrow> (Inl ex, st')
      | (Inr mk, st') \<Rightarrow> coin_loop e chain address mk st' [] ids)"

subsection \<open>Step 3: the explicit token lines\<close>

text \<open>
  What the inner \<^verbatim>\<open>try\<close> block (lines 469 to 486) leaves in \<^verbatim>\<open>usd_price\<close>, \<^verbatim>\<open>price_chg\<close>,
  \<^verbatim>\<open>coin_name\<close>, \<^verbatim>\<open>coin_symbol\<close> and \<^verbatim>\<open>logo\<close>; \<open>JNull\<close> is \<^verbatim>\<open>None\<close>. An exception inside the
  block is swallowed and keeps the assignments made before it.
\<close>

record enrichment =
  en_usd_price :: json
  en_price_chg :: json
  en_coin_name :: json
  en_coin_symbol :: json
  en_logo :: json

definition no_enrichment :: enrichment where
  "no_enrichment =
     \<lparr>en_usd_price = JNull, en_price_chg = JNull, en_coin_name = JNull,
      en_coin_symbol = JNull, en_logo = JNull\<rparr>"

text \<open>The first key of \<^verbatim>\<open>PLATFORM_TO_CHAIN_KEY\<close> whose value equals \<^verbatim>\<open>tchain\<close>.\<close>

definition platform_for :: "json \<Rightarrow> string option" where
  "platform_for tchain =
     map_option fst (find (\<lambda>(pf, ck). JStr ck = tchain) PLATFORM_TO_CHAIN_KEY)"

definition parse_info :: "json \<Rightarrow> enrichment" where
  "parse_info info =
     (case py_get info ''market_data'' JNull of
        Inl ex \<Rightarrow> no_enrichment
      | Inr md \<Rightarrow>
          (case py_get (py_or md (JObj [])) ''current_price'' JNull of
             Inl ex \<Rightarrow> no_enrichment
           | Inr cp \<Rightarrow>
               (case py_get (py_or cp (JObj [])) ''usd'' JNull of
                  Inl ex \<Rightarrow> no_enrichment
                | Inr usd \<Rightarrow>
                    (case py_get (py_or md (JObj [])) ''price_change_percentage_24h'' JNull of
                       Inl ex \<Rightarrow> no_enrichment\<lparr>en_usd_price := usd\<rparr>
                     | Inr chg \<Rightarrow>
                         (case py_get info ''name'' JNull of
                            Inl ex \<Rightarrow> no_enrichment\<lparr>en_usd_price := usd, en_price_chg := chg\<rparr>
                          | Inr nm \<Rightarrow>
                              (case py_get info ''symbol'' JNull of
                                 Inl ex \<Rightarrow>
                                   no_enrichment\<lparr>en_usd_price := usd, en_price_chg := chg,
                                     en_coin_name := nm\<rparr>
                               | Inr symb \<Rightarrow>
                                   (case py_get info ''image'' JNull of
                                      Inl ex \<Rightarrow>
                                        \<lparr>en_usd_price = usd, en_price_chg = chg,
                                         en_coin_name = nm, en_coin_symbol = symb,
                                         en_logo = JNull\<rparr>
                                    | Inr img \<Rightarrow>
                                        (case py_get (py_or img (JObj [])) ''small'' JNull of
                                           Inl ex \<Rightarrow>
                                             \<lparr>en_usd_price = usd, en_price_chg = chg,
                                              en_coin_name = nm, en_coin_symbol = symb,
                                              en_logo = JNull\<rparr>
                                         | Inr small \<Rightarrow>
                                             \<lparr>en_usd_price = usd, en_price_chg = chg,
                                              en_coin_name = nm, en_coin_symbol = symb,
                                              en_logo = small\<rparr>))))))))"

definition enrich :: "env \<Rightarrow> json \<Rightarrow> json \<Rightarrow> enrichment" where
  "enrich e tchain tcontract =
     (case platform_for tchain of
        None \<Rightarrow> no_enrichment
      | Some platform_for_cg \<Rightarrow>
          if platform_for_cg = [] then no_enrichment
          else (case http_contract e platform_for_cg tcontract of
                  None \<Rightarrow> no_enrichment
                | Some info \<Rightarrow> parse_info info))"

text \<open>\<^verbatim>\<open>x[:6]\<close>\<close>

fun py_slice6 :: "json \<Rightarrow> py_exn + json" where
  "py_slice6 (JStr s) = Inr (JStr (take 6 s))"
| "py_slice6 (JArr xs) = Inr (JArr (take 6 xs))"
| "py_slice6 x = Inl (BadSlice x)"

text \<open>\<^verbatim>\<open>float(usd_price) if usd_price else None\<close>\<close>

definition price_of :: "env \<Rightarrow> json \<Rightarrow> py_exn + pyfloat option" where
  "price_of e usd_price =
     (if truthy usd_price
      then map_sum id Some (py_float (float_of_int e) (float_of_str e) usd_price)
      else Inr None)"

text \<open>
  The dictionary appended at lines 488 to 500. Its \<^verbatim>\<open>usd_value\<close> is
  \<^verbatim>\<open>(balance or 0.0) * (float(usd_price) if usd_price else 0.0)\<close>.
\<close>

definition explicit_line ::
  "env \<Rightarrow> (string \<times> json) list \<Rightarrow> json \<Rightarrow> json \<Rightarrow> pyfloat option \<Rightarrow> enrichment
     \<Rightarrow> py_exn + token_line" where
  "explicit_line e t tchain tcontract balance en =
     (case py_upper_of
             (py_or (en_coin_symbol en) (py_or (dict_get t ''symbol'' JNull) (JStr []))) of
        Inl ex \<Rightarrow> Inl ex
      | Inr up \<Rightarrow>
          (case (if up \<noteq> [] then Inr (JStr up) else py_slice6 tcontract) of
             Inl ex \<Rightarrow> Inl ex
           | Inr symbol \<Rightarrow>
               (case price_of e (en_usd_price en) of
                  Inl ex \<Rightarrow> Inl ex
                | Inr price \<Rightarrow>
                    Inr \<lparr>tk_coin_id = None,
                         tk_symbol = symbol,
                         tk_name = py_or (en_coin_name en) (py_or (dict_get t ''name'' JNull) tcontract),
                         tk_contract = tcontract,
                         tk_platform = None,
                         tk_chain = tchain,
                         tk_balance = dflt0 balance,
                         tk_usd_price = price,
                         tk_price_change_24h = en_price_chg en,
                         tk_usd_value = f_mul e (or0 balance) (dflt0 price),
                         tk_logo = en_logo en\<rparr>)))"

text \<open>
  The body of the \<^verbatim>\<open>try\<close> block of one explicit token \<open>t\<close>, a dictionary given by its
  items: \<open>Inr None\<close> is \<^verbatim>\<open>continue\<close>.
\<close>

definition explicit_token ::
  "env \<Rightarrow> string \<Rightarrow> string \<Rightarrow> (string \<times> json) list \<Rightarrow> py_exn + token_line option" where
  "explicit_token e chain address t =
     (let tchain = py_or (dict_get t ''chain'' JNull) (JStr chain);
          tcontract = dict_get t ''contract'' JNull
      in if \<not> truthy tcontract then Inr None
         else
           (case get_erc20_balance e tchain tcontract address of
              Inl ex \<Rightarrow> Inl ex
            | Inr balance \<Rightarrow>
                map_sum id Some
                  (explicit_line e t tchain tcontract balance (enrich e tchain tcontract))))"

text \<open>
  The loop \<^verbatim>\<open>for t in tokens or []\<close> with its \<^verbatim>\<open>except\<close> clause, on the lists
  \<^verbatim>\<open>result["tokens"]\<close> and \<^verbatim>\<open>result["errors"]\<close>.
\<close>

fun explicit_loop ::
  "env \<Rightarrow> string \<Rightarrow> string \<Rightarrow> token_line list \<times> string list \<Rightarrow> (string \<times> json) list list
     \<Rightarrow> token_line list \<times> string list" where
  "explicit_loop e chain address (toks, errs) [] = (toks, errs)"
| "explicit_loop e chain address (toks, errs) (t # ts) =
     explicit_loop e chain address
       (case explicit_token e chain address t of
          Inl ex \<Rightarrow> (toks, errs @ [''token_error:'' @ exn_str e ex])
        | Inr None \<Rightarrow> (toks, errs)
        | Inr (Some line) \<Rightarrow> (toks @ [line], errs))
       ts"

subsection \<open>Step 4: totals, and the whole function\<close>

text \<open>
  \<^verbatim>\<open>if result["native"] and result["native"].get("usd_value"):\<close>
  \<^verbatim>\<open>total_usd += float(result["native"]["usd_value"] or 0.0)\<close>, from \<^verbatim>\<open>total_usd = 0.0\<close>.
  The native dictionary is never empty; its \<^verbatim>\<open>usd_value\<close> is falsy when it is the int
  \<^verbatim>\<open>0\<close> or a zero float.
\<close>

definition native_total :: "env \<Rightarrow> native_line option \<Rightarrow> pyfloat" where
  "native_total e native =
     (case native of
        None \<Rightarrow> Fin 0
      | Some n \<Rightarrow>
          (case n_usd_value n of
             Int0 \<Rightarrow> Fin 0
           | Flt x \<Rightarrow> if is_zero x then Fin 0 else f_add e (Fin 0) (or0 (Some x))))"

text \<open>\<^verbatim>\<open>for tk in result["tokens"]: total_usd += float(tk.get("usd_value") or 0.0)\<close>\<close>

fun tokens_total :: "env \<Rightarrow> pyfloat \<Rightarrow> token_line list \<Rightarrow> pyfloat" where
  "tokens_total e total_usd [] = total_usd"
| "tokens_total e total_usd (tk # tks) =
     tokens_total e (f_add e total_usd (or0 (Some (tk_usd_value tk)))) tks"

definition compute_balance_for_chain ::
  "env \<Rightarrow> caches \<Rightarrow> string \<Rightarrow> string \<Rightarrow> string list \<Rightarrow> (string \<times> json) list list
     \<Rightarrow> (py_exn + result) \<times> caches" where
  "compute_balance_for_chain e st chain address coin_ids tokens =
     (case native_block e st chain address of
        (nat_res, st1) \<Rightarrow>
          (case coin_section e st1 chain address coin_ids of
             (Inl ex, st2) \<Rightarrow> (Inl ex, st2)
           | (Inr coin_toks, st2) \<Rightarrow>
               (case explicit_loop e chain address (coin_toks, native_errors e nat_res) tokens of
                  (toks, errs) \<Rightarrow>
                    (Inr \<lparr>res_chain = chain,
                          res_address = address,
                          res_native = native_of nat_res,
                          res_tokens = toks,
                          res_errors = errs,
                          res_total_usd =
                            tokens_total e (native_total e (native_of nat_res)) toks\<rparr>,
                     st2))))"

subsection \<open>Notions used in the statements\<close>

text \<open>
  What one explicit token contributes to \<^verbatim>\<open>result["tokens"]\<close> and to \<^verbatim>\<open>result["errors"]\<close>,
  and the coin ids that survive the cleaning of the id list and the native-chain test of
  line 413.
\<close>

definition line_of :: "py_exn + token_line option \<Rightarrow> token_line list" where
  "line_of r = (case r of Inr (Some line) \<Rightarrow> [line] | _ \<Rightarrow> [])"

definition error_of :: "env \<Rightarrow> py_exn + token_line option \<Rightarrow> string list" where
  "error_of e r = (case r of Inl ex \<Rightarrow> [''token_error:'' @ exn_str e ex] | _ \<Rightarrow> [])"

definition kept_ids :: "string \<Rightarrow> string list \<Rightarrow> string list" where
  "kept_ids chain coin_ids =
     filter (\<lambda>c. map_of NATIVE_COIN_TO_CHAIN c \<noteq> Some chain) (clean_coin_ids coin_ids)"


definition fin_val :: "pyfloat \<Rightarrow> real" where
  "fin_val x = (case x of Fin a \<Rightarrow> a | _ \<Rightarrow> 0)"


subsection \<open>Concrete worlds\<close>

text \<open>
  The float arithmetic of the worlds follows IEEE 754 on the zeros, the infinities and NaN
  and is exact on finite values, and their conversions to float are exact. It is the
  arithmetic of the runtime wherever the exact result is a binary64 number, which is the
  case of every operation performed in the worlds below.
\<close>

definition is_inf :: "pyfloat \<Rightarrow> bool" where
  "is_inf x = (x = PInf \<or> x = NInf)"

definition is_neg :: "pyfloat \<Rightarrow> bool" where
  "is_neg x = (case x of Fin a \<Rightarrow> a < 0 | NegZero \<Rightarrow> True | NInf \<Rightarrow> True | _ \<Rightarrow> False)"

definition exact_add :: "pyfloat \<Rightarrow> pyfloat \<Rightarrow> pyfloat" where
  "exact_add x y =
     (if x = NaN \<or> y = NaN then NaN
      else if is_inf x \<and> is_inf y then (if x = y then x else NaN)
      else if is_inf x then x
      else if is_inf y then y
      else if x = NegZero \<and> y = NegZero then NegZero
      else Fin (fin_val x + fin_val y))"

definition exact_mul :: "pyfloat \<Rightarrow> pyfloat \<Rightarrow> pyfloat" where
  "exact_mul x y =
     (if x = NaN \<or> y = NaN then NaN
      else if (is_inf x \<and> is_zero y) \<or> (is_zero x \<and> is_inf y) then NaN
      else if is_inf x \<or> is_inf y then (if is_neg x = is_neg y then PInf else NInf)
      else if is_zero x \<or> is_zero y then (if is_neg x = is_neg y then Fin 0 else NegZero)
      else Fin (fin_val x * fin_val y))"

text \<open>
  \<^verbatim>\<open>str(e)\<close> as CPython 3.11 prints it: \<open>type_name\<close> is the name of the type of a value and
  \<open>quoted\<close> puts a string between single quotes. \<^verbatim>\<open>str(KeyError(0))\<close> is \<^verbatim>\<open>0\<close>.
\<close>

definition type_name :: "json \<Rightarrow> string" where
  "type_name x =
     (case x of
        JNull \<Rightarrow> ''NoneType''
      | JBool b \<Rightarrow> ''bool''
      | JInt i \<Rightarrow> ''int''
      | JFloat f \<Rightarrow> ''float''
      | JStr s \<Rightarrow> ''str''
      | JArr xs \<Rightarrow> ''list''
      | JObj kvs \<Rightarrow> ''dict'')"

definition quoted :: "string \<Rightarrow> string" where
  "quoted s = [CHR 0x27] @ s @ [CHR 0x27]"

definition cpython_str :: "py_exn \<Rightarrow> string" where
  "cpython_str ex =
     (case ex of
        AttributeError x a \<Rightarrow> quoted (type_name x) @ '' object has no attribute '' @ quoted a
      | KeyError0 \<Rightarrow> ''0''
      | NotSubscriptable x \<Rightarrow> quoted (type_name x) @ '' object is not subscriptable''
      | NotIterable x \<Rightarrow> quoted (type_name x) @ '' object is not iterable''
      | Unhashable x \<Rightarrow> ''unhashable type: '' @ quoted (type_name x)
      | FloatTypeError x \<Rightarrow>
          ''float() argument must be a string or a real number, not '' @ quoted (type_name x)
      | FloatValueError s \<Rightarrow> ''could not convert string to float: '' @ quoted s
      | FloatOverflow i \<Rightarrow> ''int too large to convert to float''
      | IndexError x \<Rightarrow>
          (case x of JStr s \<Rightarrow> ''string index out of range'' | _ \<Rightarrow> ''list index out of range'')
      | BadSlice x \<Rightarrow>
          (case x of
             JObj kvs \<Rightarrow> ''unhashable type: '' @ quoted ''slice''
           | _ \<Rightarrow> quoted (type_name x) @ '' object is not subscriptable''))"

text \<open>
  \<open>env_live\<close> is the end-to-end example of the specification: an Ethereum wallet holding
  1.5 ETH at 3000 USD and 100 USDC at 1 USD. \<open>env_down\<close> is the same world with every
  upstream call failing.
\<close>

definition default_rpc_urls :: "string \<rightharpoonup> string" where
  "default_rpc_urls =
     map_of
       [(''ethereum'', ''https://cloudflare-eth.com''),
        (''bsc'', ''https://bsc-dataseed.binance.org/''),
        (''polygon'', ''https://rpc.ankr.com/polygon''),
        (''avax'', ''https://rpc.ankr.com/avalanche''),
        (''arbitrum'', ''https://rpc.ankr.com/arbitrum''),
        (''optimism'', ''https://rpc.ankr.com/optimism''),
        (''fantom'', ''https://rpc.ankr.com/fantom''),
        (''cronos'', ''https://evm.cronos.org''),
        (''solana'', ''https://api.mainnet-beta.solana.com'')]"

definition no_caches :: caches where
  "no_caches = \<lparr>markets_cache = Map.empty, coin_detail_cache = Map.empty\<rparr>"

definition usdc :: string where
  "usdc = ''0xa0b86991c6218b36c1d19d4a2e9eb0ce3606eb48''"

definition wallet :: string where
  "wallet = ''0x52908400098527886E0F7030069857D2E4169EE7''"

definition eth_quote :: json where
  "eth_quote =
     JObj [(''id'', JStr ''ethereum''), (''symbol'', JStr ''eth''), (''name'', JStr ''Ethereum''),
           (''image'', JStr ''eth.png''), (''current_price'', JInt 3000),
           (''price_change_percentage_24h'', JInt 2)]"

definition usdc_quote :: json where
  "usdc_quote =
     JObj [(''id'', JStr ''usd-coin''), (''symbol'', JStr ''usdc''), (''name'', JStr ''USDC''),
           (''image'', JStr ''usdc.png''), (''current_price'', JFloat (Fin 1)),
           (''price_change_percentage_24h'', JInt 0)]"

definition bnb_quote :: json where
  "bnb_quote =
     JObj [(''id'', JStr ''binancecoin''), (''symbol'', JStr ''bnb''), (''name'', JStr ''BNB''),
           (''image'', JStr ''bnb.png''), (''current_price'', JInt 600),
           (''price_change_percentage_24h'', JInt 1)]"

definition btc_quote :: json where
  "btc_quote =
     JObj [(''id'', JStr ''bitcoin''), (''symbol'', JStr ''btc''), (''name'', JStr ''Bitcoin''),
           (''image'', JStr ''btc.png''), (''current_price'', JInt 60000),
           (''price_change_percentage_24h'', JInt 3)]"

definition usdc_platforms :: "(string \<times> json) list" where
  "usdc_platforms =
     [(''polygon-pos'', JStr ''0x3c499c542cef5e3811e1192ce70d8cc03d5c3359''),
      (''ethereum'', JStr usdc)]"

definition usdc_detail :: json where
  "usdc_detail = JObj [(''id'', JStr ''usd-coin''), (''platforms'', JObj usdc_platforms)]"

definition env_live :: env where
  "env_live =
     \<lparr>rpc_urls = default_rpc_urls,
      web3_handle = (\<lambda>k. True),
      rpc_get_balance = (\<lambda>k a. if k = ''ethereum'' then Some 1500000000000000000 else None),
      rpc_decimals = (\<lambda>k c. if k = ''ethereum'' \<and> c = JStr usdc then Some 6 else None),
      rpc_balance_of =
        (\<lambda>k c a. if k = ''ethereum'' \<and> c = JStr usdc then Some 100000000 else None),
      solana_available = False,
      solana_get_balance = (\<lambda>a. None),
      time_now = 1000,
      http_markets =
        (\<lambda>k n. if k = ''ethereum'' then Some (JArr [eth_quote])
               else if k = ''binancecoin'' then Some (JArr [bnb_quote])
               else if k = ''ethereum,usd-coin'' then Some (JArr [eth_quote, usdc_quote])
               else if k = ''bitcoin,ethereum'' then Some (JArr [btc_quote, eth_quote])
               else None),
      http_coin_detail = (\<lambda>c. if c = ''usd-coin'' then Some usdc_detail else None),
      http_contract = (\<lambda>p c. None),
      f_add = exact_add,
      f_mul = exact_mul,
      float_of_int = (\<lambda>i. Some (Fin (real_of_int i))),
      float_of_str = (\<lambda>s. None),
      float_of_wei = (\<lambda>w. Some (Fin (real w / 10 ^ 18))),
      float_of_units = (\<lambda>raw d. Some (Fin (real raw / 10 ^ d))),
      float_of_lamports = (\<lambda>l. Some (Fin (real l / 10 ^ 9))),
      exn_str = cpython_str\<rparr>"

definition env_down :: env where
  "env_down =
     env_live\<lparr>rpc_get_balance := (\<lambda>k a. None), rpc_decimals := (\<lambda>k c. None),
       rpc_balance_of := (\<lambda>k c a. None), http_markets := (\<lambda>k n. None),
       http_coin_detail := (\<lambda>c. None)\<rparr>"

definition eth_line :: native_line where
  "eth_line =
     \<lparr>n_symbol = ''ETHEREUM'', n_balance = Fin (3 / 2), n_usd_price = Some (Fin 3000),
      n_usd_value = Flt (Fin 4500), n_price_change_24h = Some (JInt 2)\<rparr>"



text \<open>
  The caches after \<open>env_live\<close> has answered a markets request for bitcoin and ethereum, and
  after it has answered a coin-detail request for usd-coin; \<open>env_later\<close> is eleven seconds
  later, with every upstream call failing.
\<close>

definition warm_caches :: caches where
  "warm_caches =
     no_caches\<lparr>markets_cache :=
       [''bitcoin,ethereum'' \<mapsto> \<lparr>entry_ts = 1000, entry_data = JArr [btc_quote, eth_quote]\<rparr>]\<rparr>"

definition detail_caches :: caches where
  "detail_caches =
     no_caches\<lparr>coin_detail_cache :=
       [''usd-coin'' \<mapsto> \<lparr>entry_ts = 1000, entry_data = usdc_detail\<rparr>]\<rparr>"

definition env_later :: env where
  "env_later = env_down\<lparr>time_now := 1011\<rparr>"

text \<open>
  \<open>env_rpc_down\<close>: the RPC endpoints are unavailable, the market provider answers.
  \<open>bsc_result\<close> is what the function returns there for chain \<^verbatim>\<open>"bsc"\<close>.
\<close>

definition env_rpc_down :: env where
  "env_rpc_down =
     env_live\<lparr>rpc_get_balance := (\<lambda>k a. None), rpc_decimals := (\<lambda>k c. None),
       rpc_balance_of := (\<lambda>k c a. None)\<rparr>"

definition bnb_line :: native_line where
  "bnb_line =
     \<lparr>n_symbol = ''BINANCECOIN'', n_balance = Fin 0, n_usd_price = Some (Fin 600),
      n_usd_value = Flt (Fin 0), n_price_change_24h = Some (JInt 1)\<rparr>"

definition bsc_result :: result where
  "bsc_result =
     \<lparr>res_chain = ''bsc'',
      res_address = wallet,
      res_native = Some bnb_line,
      res_tokens = [],
      res_errors = [],
      res_total_usd = Fin 0\<rparr>"

text \<open>
  \<open>env_inf\<close>: the RPC endpoints are unavailable and the body of the provider's answer gives
  the price of BNB as \<^verbatim>\<open>1e400\<close>, which \<^verbatim>\<open>r.json()\<close> decodes to the float infinity.
  \<open>inf_result\<close> is what the function returns there for chain \<^verbatim>\<open>"bsc"\<close>: the value of the
  native line is \<^verbatim>\<open>0 * inf\<close>, that is NaN, and so is the total.
\<close>

definition bnb_inf_quote :: json where
  "bnb_inf_quote =
     JObj [(''id'', JStr ''binancecoin''), (''symbol'', JStr ''bnb''), (''name'', JStr ''BNB''),
           (''current_price'', JFloat PInf)]"

definition env_inf :: env where
  "env_inf =
     env_rpc_down\<lparr>http_markets :=
       (\<lambda>k n. if k = ''binancecoin'' then Some (JArr [bnb_inf_quote]) else None)\<rparr>"


text \<open>
  \<open>env_alias\<close>: a provider that knows quotes under the ids \<^verbatim>\<open>"eth"\<close> and \<^verbatim>\<open>"sol"\<close>, and
  what the function returns there for the id list \<^verbatim>\<open>["eth", "eth", "sol"]\<close> on chain
  \<^verbatim>\<open>"ethereum"\<close>.
\<close>

definition eth_alias_quote :: json where
  "eth_alias_quote =
     JObj [(''id'', JStr ''eth''), (''symbol'', JStr ''eth''), (''name'', JStr ''Ether''),
           (''current_price'', JInt 3000)]"

definition sol_alias_quote :: json where
  "sol_alias_quote =
     JObj [(''id'', JStr ''sol''), (''symbol'', JStr ''sol''), (''name'', JStr ''Sol''),
           (''current_price'', JInt 150)]"

definition env_alias :: env where
  "env_alias =
     env_live\<lparr>http_markets :=
       (\<lambda>k n. if k = ''ethereum'' then Some (JArr [eth_quote])
              else if k = ''eth,sol'' then Some (JArr [eth_alias_quote, sol_alias_quote])
              else None)\<rparr>"

definition alias_line :: "string \<Rightarrow> string \<Rightarrow> string \<Rightarrow> real \<Rightarrow> token_line" where
  "alias_line cid sy nm price =
     \<lparr>tk_coin_id = Some cid, tk_symbol = JStr sy, tk_name = JStr nm, tk_contract = JNull,
      tk_platform = None, tk_chain = JNull, tk_balance = Fin 0, tk_usd_price = Some (Fin price),
      tk_price_change_24h = JNull, tk_usd_value = Fin 0, tk_logo = JNull\<rparr>"

definition alias_result :: result where
  "alias_result =
     \<lparr>res_chain = ''ethereum'',
      res_address = wallet,
      res_native = Some eth_line,
      res_tokens = [alias_line ''eth'' ''ETH'' ''Ether'' 3000, alias_line ''sol'' ''SOL'' ''Sol'' 150],
      res_errors = [],
      res_total_usd = Fin 4500\<rparr>"

text \<open>
  A request with a repeated coin id, the chain's own native coin among the ids, and three
  explicit tokens: one without a contract, one without a chain, and one on a chain key that
  has no RPC endpoint.
\<close>

definition tok_hint_only :: "(string \<times> json) list" where
  "tok_hint_only = [(''symbol'', JStr ''dai'')]"

definition tok_usdc :: "(string \<times> json) list" where
  "tok_usdc = [(''contract'', JStr usdc), (''symbol'', JStr ''usdc'')]"

definition tok_nochain :: "(string \<times> json) list" where
  "tok_nochain = [(''contract'', JStr ''0xdead''), (''chain'', JStr ''nochain'')]"

definition usdc_coin_line :: token_line where
  "usdc_coin_line =
     \<lparr>tk_coin_id = Some ''usd-coin'', tk_symbol = JStr ''USDC'', tk_name = JStr ''USDC'',
      tk_contract = JStr usdc, tk_platform = Some ''ethereum'', tk_chain = JStr ''ethereum'',
      tk_balance = Fin 100, tk_usd_price = Some (Fin 1), tk_price_change_24h = JInt 0,
      tk_usd_value = Fin 100, tk_logo = JStr ''usdc.png''\<rparr>"

definition usdc_explicit_line :: token_line where
  "usdc_explicit_line =
     \<lparr>tk_coin_id = None, tk_symbol = JStr ''USDC'', tk_name = JStr usdc,
      tk_contract = JStr usdc, tk_platform = None, tk_chain = JStr ''ethereum'',
      tk_balance = Fin 100, tk_usd_price = None, tk_price_change_24h = JNull,
      tk_usd_value = Fin 0, tk_logo = JNull\<rparr>"

definition nochain_line :: token_line where
  "nochain_line =
     \<lparr>tk_coin_id = None, tk_symbol = JStr ''0xdead'', tk_name = JStr ''0xdead'',
      tk_contract = JStr ''0xdead'', tk_platform = None, tk_chain = JStr ''nochain'',
      tk_balance = Fin 0, tk_usd_price = None, tk_price_change_24h = JNull,
      tk_usd_value = Fin 0, tk_logo = JNull\<rparr>"

definition mixed_result :: "token_line list \<Rightarrow> result" where
  "mixed_result explicit_lines =
     \<lparr>res_chain = ''ethereum'',
      res_address = wallet,
      res_native = Some eth_line,
      res_tokens = usdc_coin_line # explicit_lines,
      res_errors = [],
      res_total_usd = Fin 4600\<rparr>"

text \<open>
  An explicit token on the chain key \<^verbatim>\<open>"nochain"\<close> whose symbol hint is the number 5, and
  what the function returns for it alone on chain \<^verbatim>\<open>"ethereum"\<close>: \<^verbatim>\<open>(5).upper()\<close> raises, so
  the entry leaves a message and no line.
\<close>

definition tok_bad_hint :: "(string \<times> json) list" where
  "tok_bad_hint =
     [(''contract'', JStr ''0xdead''), (''chain'', JStr ''nochain''), (''symbol'', JInt 5)]"


text \<open>
  Deduplication keeping the first occurrence, as a recursion on the list: the property the
  id cleaning is compared with.
\<close>

primrec first_seen :: "'a list \<Rightarrow> 'a list" where
  "first_seen [] = []"
| "first_seen (x # xs) = x # filter (\<lambda>y. y \<noteq> x) (first_seen xs)"

section \<open>Properties\<close>

subsection \<open>Evaluating the model\<close>

lemmas model_defs =
  compute_balance_for_chain_def native_block_def native_evm_def native_solana_def
  get_native_evm_balance_def get_erc20_balance_def get_solana_balance_def
  native_coin_id_of_def NATIVE_COIN_TO_CHAIN_def PLATFORM_TO_CHAIN_KEY_def
  cached_markets_def fetch_markets_def markets_key_def cached_coin_detail_def
  fetch_coin_detail_def find_contract_for_coin_id_def PREFER_def coin_section_def
  clean_coin_ids_def dedup_def build_markets_def markets_step_def markets_get_def
  coin_token_def resolved_line_def unresolved_line_def explicit_token_def explicit_line_def
  enrich_def parse_info_def platform_for_def price_of_def native_of_def native_errors_def
  native_total_def native_value_def dflt0_def or0_def or_int0_def is_zero_def
  current_price_of_def py_or_def dict_get_def py_upper_def
  upper_char_def py_strip_def is_space_def json_of_key_def no_enrichment_def CACHE_TTL_def
  Let_def

lemmas world_defs =
  env_live_def env_down_def no_caches_def default_rpc_urls_def usdc_def
  wallet_def eth_quote_def usdc_quote_def bnb_quote_def btc_quote_def usdc_platforms_def
  usdc_detail_def warm_caches_def detail_caches_def env_later_def env_rpc_down_def
  env_alias_def eth_alias_quote_def sol_alias_quote_def alias_line_def tok_hint_only_def
  tok_usdc_def tok_nochain_def tok_bad_hint_def env_inf_def bnb_inf_quote_def
  eth_line_def bnb_line_def exact_add_def exact_mul_def is_inf_def is_neg_def fin_val_def
  cpython_str_def type_name_def quoted_def



lemma bsc_run:
  "fst (compute_balance_for_chain env_rpc_down no_caches ''bsc'' wallet [] [tok_hint_only])
     = Inr bsc_result"
  by (simp add: bsc_result_def model_defs world_defs)

lemma alias_run:
  "fst (compute_balance_for_chain env_alias no_caches ''ethereum'' wallet
          [''eth'', ''eth'', ''sol''] []) = Inr alias_result"
  by (simp add: alias_result_def model_defs world_defs)

lemma mixed_run:
  "fst (compute_balance_for_chain env_live no_caches ''ethereum'' wallet
          [''usd-coin'', ''ethereum'', '' usd-coin '']
          [tok_hint_only, tok_usdc, tok_nochain])
     = Inr (mixed_result [usdc_explicit_line, nochain_line])"
  by (simp add: mixed_result_def usdc_coin_line_def usdc_explicit_line_def nochain_line_def
        model_defs world_defs)



lemma mixed_kept:
  "kept_ids ''ethereum'' [''usd-coin'', ''ethereum'', '' usd-coin ''] = [''usd-coin'']"
  by (simp add: kept_ids_def clean_coin_ids_def dedup_def py_strip_def is_space_def
        NATIVE_COIN_TO_CHAIN_def)

lemma run_pair: "fst p = a \<Longrightarrow> p = (a, snd p)"
  by (cases p) simp

subsection \<open>The shape of a returned result\<close>




lemma explicit_loop_eq:
  "explicit_loop e chain address (toks, errs) ts =
     (toks @ concat (map (\<lambda>t. line_of (explicit_token e chain address t)) ts),
      errs @ concat (map (\<lambda>t. error_of e (explicit_token e chain address t)) ts))"
  by (induction ts arbitrary: toks errs)
     (auto simp: line_of_def error_of_def split: sum.splits option.splits)

lemma resolved_line_coin_id:
  "resolved_line e address mk coin_id c p = Inr l \<Longrightarrow> tk_coin_id l = Some coin_id"
  by (auto simp: resolved_line_def Let_def split: sum.splits option.splits if_splits)

lemma unresolved_line_coin_id:
  "unresolved_line e mk coin_id = Inr l \<Longrightarrow> tk_coin_id l = Some coin_id"
  by (auto simp: unresolved_line_def Let_def split: sum.splits option.splits if_splits)

lemma coin_token_Some:
  "coin_token e st chain address mk coin_id = (Inr (Some l), st') \<Longrightarrow>
     tk_coin_id l = Some coin_id \<and> map_of NATIVE_COIN_TO_CHAIN coin_id \<noteq> Some chain"
  by (auto simp: coin_token_def map_sum_def
           split: if_splits prod.splits sum.splits option.splits
           dest: resolved_line_coin_id unresolved_line_coin_id)

lemma coin_token_None:
  "coin_token e st chain address mk coin_id = (Inr None, st') \<Longrightarrow>
     map_of NATIVE_COIN_TO_CHAIN coin_id = Some chain"
  by (auto simp: coin_token_def map_sum_def
           split: if_splits prod.splits sum.splits option.splits)

lemma coin_loop_lines:
  "coin_loop e chain address mk st toks ids = (Inr out, st') \<Longrightarrow>
     \<exists>new. out = toks @ new \<and>
       map tk_coin_id new =
         map Some (filter (\<lambda>c. map_of NATIVE_COIN_TO_CHAIN c \<noteq> Some chain) ids)"
proof (induction ids arbitrary: st toks)
  case Nil
  then show ?case by simp
next
  case (Cons c cs)
  obtain r st1 where ct: "coin_token e st chain address mk c = (r, st1)"
    by (cases "coin_token e st chain address mk c")
  show ?case
  proof (cases r)
    case (Inl ex)
    with Cons.prems ct show ?thesis by simp
  next
    case (Inr o1)
    show ?thesis
    proof (cases o1)
      case None
      with Cons.prems ct Inr have "coin_loop e chain address mk st1 toks cs = (Inr out, st')"
        by simp
      from Cons.IH[OF this] coin_token_None[of e st chain address mk c st1] ct Inr None
      show ?thesis by auto
    next
      case (Some l)
      with Cons.prems ct Inr
      have "coin_loop e chain address mk st1 (toks @ [l]) cs = (Inr out, st')"
        by simp
      from Cons.IH[OF this] coin_token_Some[of e st chain address mk c l st1] ct Inr Some
      show ?thesis by auto
    qed
  qed
qed

lemma coin_section_lines:
  "coin_section e st chain address coin_ids = (Inr out, st') \<Longrightarrow>
     map tk_coin_id out = map Some (kept_ids chain coin_ids)"
  by (auto simp: coin_section_def kept_ids_def Let_def
           split: if_splits prod.splits sum.splits dest!: coin_loop_lines)

lemma compute_Inr:
  assumes "compute_balance_for_chain e st chain address coin_ids tokens = (Inr r, st')"
  shows "\<exists>nat_res st1 coin_toks.
           native_block e st chain address = (nat_res, st1) \<and>
           coin_section e st1 chain address coin_ids = (Inr coin_toks, st') \<and>
           r = \<lparr>res_chain = chain, res_address = address, res_native = native_of nat_res,
                res_tokens =
                  coin_toks @ concat (map (\<lambda>t. line_of (explicit_token e chain address t)) tokens),
                res_errors =
                  native_errors e nat_res
                  @ concat (map (\<lambda>t. error_of e (explicit_token e chain address t)) tokens),
                res_total_usd =
                  tokens_total e (native_total e (native_of nat_res))
                    (coin_toks
                     @ concat (map (\<lambda>t. line_of (explicit_token e chain address t)) tokens))\<rparr>"
  using assms
  by (auto simp: compute_balance_for_chain_def explicit_loop_eq split: prod.splits sum.splits)


subsection \<open>C1: the total and the values of the lines\<close>




subsection \<open>C7: the markets cache key does not depend on the order of the ids\<close>

lemma markets_key_perm: "mset ys = mset xs \<Longrightarrow> markets_key ys = markets_key xs"
proof -
  assume "mset ys = mset xs"
  then have "sort ys = sort xs"
    by (intro properties_for_sort) simp_all
  then show ?thesis by (simp add: markets_key_def)
qed

text \<open>
  Claim C7. Let \<open>ys\<close> be a reordering of the id list \<open>xs\<close>. Both lists have the same cache
  key. If the call for \<open>xs\<close> left an entry under that key (it found one or stored the data
  it fetched) and the call for \<open>ys\<close> comes later, inside the TTL window of that entry, then
  the second call returns the data the first call returned and leaves the caches as they
  are, whatever the provider would answer at that moment: it makes no upstream fetch.
\<close>

theorem cached_markets_order_independent:
  assumes perm: "mset ys = mset xs"
    and first: "cached_markets e1 st xs = (d1, st1)"
    and stored: "markets_cache st1 (markets_key xs) = Some entry"
    and later: "time_now e1 \<le> time_now e2"
    and fresh: "time_now e2 - entry_ts entry < CACHE_TTL"
  shows "markets_key ys = markets_key xs \<and> cached_markets e2 st1 ys = (d1, st1)"
proof (cases "xs = []")
  case True
  with perm have "ys = []" by simp
  with True first show ?thesis by (simp add: cached_markets_def)
next
  case False
  with perm have ys: "ys \<noteq> []" by auto
  have key: "markets_key ys = markets_key xs" by (rule markets_key_perm[OF perm])
  have d1: "d1 = entry_data entry"
    using first stored later fresh False
    by (auto simp: cached_markets_def fetch_markets_def split: option.splits if_splits)
  show ?thesis
    using key ys stored fresh d1 by (simp add: cached_markets_def)
qed

text \<open>
  The theorem at the example of the specification: \<^verbatim>\<open>["bitcoin", "ethereum"]\<close> is fetched
  at time 1000; \<^verbatim>\<open>["ethereum", "bitcoin"]\<close> is asked for at time 1011, when the provider is
  down, and is answered from the cache.
\<close>

theorem cached_markets_order_independent_witness:
  "mset [''ethereum'', ''bitcoin''] = mset [''bitcoin'', ''ethereum'']
   \<and> cached_markets env_live no_caches [''bitcoin'', ''ethereum'']
       = (JArr [btc_quote, eth_quote], warm_caches)
   \<and> markets_cache warm_caches (markets_key [''bitcoin'', ''ethereum''])
       = Some \<lparr>entry_ts = 1000, entry_data = JArr [btc_quote, eth_quote]\<rparr>
   \<and> time_now env_live \<le> time_now env_later
   \<and> time_now env_later - 1000 < CACHE_TTL
   \<and> markets_key [''ethereum'', ''bitcoin''] = markets_key [''bitcoin'', ''ethereum'']
   \<and> cached_markets env_later warm_caches [''ethereum'', ''bitcoin'']
       = (JArr [btc_quote, eth_quote], warm_caches)"
proof -
  have h1: "mset [''ethereum'', ''bitcoin''] = mset [''bitcoin'', ''ethereum'']"
    by simp
  have h2: "cached_markets env_live no_caches [''bitcoin'', ''ethereum'']
              = (JArr [btc_quote, eth_quote], warm_caches)"
    by (simp add: cached_markets_def fetch_markets_def markets_key_def env_live_def
          no_caches_def warm_caches_def)
  have h3: "markets_cache warm_caches (markets_key [''bitcoin'', ''ethereum''])
              = Some \<lparr>entry_ts = 1000, entry_data = JArr [btc_quote, eth_quote]\<rparr>"
    by (simp add: markets_key_def warm_caches_def no_caches_def)
  have h4: "time_now env_live \<le> time_now env_later"
    by (simp add: env_live_def env_later_def env_down_def)
  have h5: "time_now env_later
              - entry_ts \<lparr>entry_ts = 1000, entry_data = JArr [btc_quote, eth_quote]\<rparr>
            < CACHE_TTL"
    by (simp add: env_later_def env_down_def CACHE_TTL_def)
  from cached_markets_order_independent[OF h1 h2 h3 h4 h5] h1 h2 h3 h4 h5
  show ?thesis by simp
qed

subsection \<open>C6: the preference order of the contract resolver\<close>

lemma prefer_loop_obj:
  "prefer_loop (JObj kvs) ps =
     Inr (case find (\<lambda>p. truthy (dict_get kvs p JNull)) ps of
            None \<Rightarrow> None
          | Some p \<Rightarrow> Some (dict_get kvs p JNull, p))"
  by (induction ps) auto

lemma first_item_filter:
  "first_item kvs =
     (case filter (\<lambda>(p, v). truthy v) kvs of [] \<Rightarrow> None | (p, v) # rest \<Rightarrow> Some (v, p))"
  by (induction kvs) auto

lemma first_item_none: "(\<forall>(p, v)\<in>set kvs. \<not> truthy v) \<Longrightarrow> first_item kvs = None"
  by (induction kvs) auto

lemma dict_get_falsy:
  "(\<forall>(p, v)\<in>set kvs. \<not> truthy v) \<Longrightarrow> \<not> truthy (dict_get kvs k JNull)"
  by (auto simp: dict_get_def split: option.splits dest: map_of_SomeD)

lemma find_contract_obj:
  assumes "cached_coin_detail e st coin_id = (JObj d, st')" and "d \<noteq> []"
    and "py_or (dict_get d ''platforms'' JNull) (JObj []) = JObj kvs"
  shows "find_contract_for_coin_id e st coin_id =
           (case find (\<lambda>p. truthy (dict_get kvs p JNull)) PREFER of
              Some p \<Rightarrow> (Inr (Some (dict_get kvs p JNull, p)), st')
            | None \<Rightarrow> (Inr (first_item kvs), st'))"
  using assms
  by (simp add: find_contract_for_coin_id_def prefer_loop_obj split: option.splits)

text \<open>
  Claim C6. Let the coin detail be what \<^verbatim>\<open>cached_coin_detail\<close> returns. If it is missing
  (falsy), the resolver returns \<^verbatim>\<open>None\<close>. If it is a dictionary whose platform map is \<open>kvs\<close>
  (the empty map when \<^verbatim>\<open>"platforms"\<close> is absent or falsy), then:
  \<^item> with non-empty addresses on both \<^verbatim>\<open>"ethereum"\<close> and \<^verbatim>\<open>"polygon-pos"\<close>, the result is the
    \<^verbatim>\<open>"ethereum"\<close> entry;
  \<^item> in general the result is the entry of the first platform of the preference list
    (ethereum, binance-smart-chain, polygon-pos, avalanche, arbitrum-one,
    optimistic-ethereum) whose address is non-empty;
  \<^item> if no preferred platform has a non-empty address, the result is the first entry of
    the map, in its iteration order, with a non-empty address;
  \<^item> if no entry of the map has a non-empty address, the result is \<^verbatim>\<open>None\<close>.
\<close>

theorem find_contract_preference:
  assumes "cached_coin_detail e st coin_id = (detail, st')"
  shows "(\<not> truthy detail \<longrightarrow> find_contract_for_coin_id e st coin_id = (Inr None, st'))
       \<and> (\<forall>d kvs. detail = JObj d \<and> d \<noteq> []
             \<and> py_or (dict_get d ''platforms'' JNull) (JObj []) = JObj kvs \<longrightarrow>
           (truthy (dict_get kvs ''ethereum'' JNull) \<and> truthy (dict_get kvs ''polygon-pos'' JNull)
              \<longrightarrow> find_contract_for_coin_id e st coin_id =
                    (Inr (Some (dict_get kvs ''ethereum'' JNull, ''ethereum'')), st'))
         \<and> (\<forall>i<length PREFER.
               truthy (dict_get kvs (PREFER ! i) JNull)
               \<and> (\<forall>j<i. \<not> truthy (dict_get kvs (PREFER ! j) JNull))
               \<longrightarrow> find_contract_for_coin_id e st coin_id =
                     (Inr (Some (dict_get kvs (PREFER ! i) JNull, PREFER ! i)), st'))
         \<and> ((\<forall>p\<in>set PREFER. \<not> truthy (dict_get kvs p JNull))
               \<longrightarrow> find_contract_for_coin_id e st coin_id =
                     (Inr (case filter (\<lambda>(p, v). truthy v) kvs of
                             [] \<Rightarrow> None
                           | (p, v) # rest \<Rightarrow> Some (v, p)), st'))
         \<and> ((\<forall>(p, v)\<in>set kvs. \<not> truthy v)
               \<longrightarrow> find_contract_for_coin_id e st coin_id = (Inr None, st')))"
proof (intro conjI allI impI)
  assume "\<not> truthy detail"
  with assms show "find_contract_for_coin_id e st coin_id = (Inr None, st')"
    by (simp add: find_contract_for_coin_id_def)
next
  fix d kvs
  assume h: "detail = JObj d \<and> d \<noteq> []
             \<and> py_or (dict_get d ''platforms'' JNull) (JObj []) = JObj kvs"
  then have eq: "find_contract_for_coin_id e st coin_id =
           (case find (\<lambda>p. truthy (dict_get kvs p JNull)) PREFER of
              Some p \<Rightarrow> (Inr (Some (dict_get kvs p JNull, p)), st')
            | None \<Rightarrow> (Inr (first_item kvs), st'))"
    using assms find_contract_obj by blast
  {
    assume "truthy (dict_get kvs ''ethereum'' JNull) \<and> truthy (dict_get kvs ''polygon-pos'' JNull)"
    then show "find_contract_for_coin_id e st coin_id =
                    (Inr (Some (dict_get kvs ''ethereum'' JNull, ''ethereum'')), st')"
      by (simp add: eq PREFER_def)
  next
    fix i
    assume i: "i < length PREFER"
      and t: "truthy (dict_get kvs (PREFER ! i) JNull)
               \<and> (\<forall>j<i. \<not> truthy (dict_get kvs (PREFER ! j) JNull))"
    then have "find (\<lambda>p. truthy (dict_get kvs p JNull)) PREFER = Some (PREFER ! i)"
      unfolding find_Some_iff by blast
    then show "find_contract_for_coin_id e st coin_id =
                     (Inr (Some (dict_get kvs (PREFER ! i) JNull, PREFER ! i)), st')"
      by (simp add: eq)
  next
    assume "\<forall>p\<in>set PREFER. \<not> truthy (dict_get kvs p JNull)"
    then have "find (\<lambda>p. truthy (dict_get kvs p JNull)) PREFER = None"
      by (simp add: find_None_iff)
    then show "find_contract_for_coin_id e st coin_id =
                     (Inr (case filter (\<lambda>(p, v). truthy v) kvs of
                             [] \<Rightarrow> None
                           | (p, v) # rest \<Rightarrow> Some (v, p)), st')"
      by (simp add: eq first_item_filter)
  next
    assume a: "\<forall>(p, v)\<in>set kvs. \<not> truthy v"
    then have "find (\<lambda>p. truthy (dict_get kvs p JNull)) PREFER = None"
      by (simp add: find_None_iff dict_get_falsy)
    with a show "find_contract_for_coin_id e st coin_id = (Inr None, st')"
      by (simp add: eq first_item_none)
  }
qed

text \<open>
  The theorem at a coin detail whose platform map lists \<^verbatim>\<open>"polygon-pos"\<close> before
  \<^verbatim>\<open>"ethereum"\<close>: the resolver returns the \<^verbatim>\<open>"ethereum"\<close> entry.
\<close>

theorem find_contract_preference_witness:
  "cached_coin_detail env_live no_caches ''usd-coin'' = (usdc_detail, detail_caches)
   \<and> truthy (dict_get usdc_platforms ''ethereum'' JNull)
   \<and> truthy (dict_get usdc_platforms ''polygon-pos'' JNull)
   \<and> find_contract_for_coin_id env_live no_caches ''usd-coin''
       = (Inr (Some (JStr usdc, ''ethereum'')), detail_caches)"
proof -
  have h1: "cached_coin_detail env_live no_caches ''usd-coin'' = (usdc_detail, detail_caches)"
    by (simp add: cached_coin_detail_def fetch_coin_detail_def env_live_def no_caches_def
          detail_caches_def)
  have h2: "usdc_detail = JObj [(''id'', JStr ''usd-coin''), (''platforms'', JObj usdc_platforms)]
            \<and> [(''id'', JStr ''usd-coin''), (''platforms'', JObj usdc_platforms)] \<noteq> []
            \<and> py_or (dict_get [(''id'', JStr ''usd-coin''), (''platforms'', JObj usdc_platforms)]
                        ''platforms'' JNull) (JObj []) = JObj usdc_platforms"
    by (simp add: usdc_detail_def usdc_platforms_def py_or_def dict_get_def)
  have h3: "truthy (dict_get usdc_platforms ''ethereum'' JNull)
            \<and> truthy (dict_get usdc_platforms ''polygon-pos'' JNull)"
    by (simp add: usdc_platforms_def dict_get_def usdc_def)
  have h4: "dict_get usdc_platforms ''ethereum'' JNull = JStr usdc"
    by (simp add: usdc_platforms_def dict_get_def)
  from find_contract_preference[OF h1] h2 h3
  have "find_contract_for_coin_id env_live no_caches ''usd-coin''
          = (Inr (Some (dict_get usdc_platforms ''ethereum'' JNull, ''ethereum'')), detail_caches)"
    by blast
  with h1 h3 h4 show ?thesis by simp
qed

subsection \<open>The lines of the explicit tokens\<close>

lemma explicit_line_fields:
  "explicit_line e t tchain tcontract balance en = Inr l \<Longrightarrow>
     tk_coin_id l = None \<and> tk_contract l = tcontract \<and> tk_chain l = tchain
     \<and> tk_platform l = None \<and> tk_balance l = dflt0 balance
     \<and> tk_usd_value l = f_mul e (or0 balance) (dflt0 (tk_usd_price l))"
  by (auto simp: explicit_line_def split: sum.splits if_splits)

lemma explicit_token_Some:
  assumes "explicit_token e chain address t = Inr (Some l)"
  shows "tk_coin_id l = None
       \<and> tk_contract l = dict_get t ''contract'' JNull
       \<and> truthy (tk_contract l)
       \<and> tk_chain l = py_or (dict_get t ''chain'' JNull) (JStr chain)
       \<and> (\<exists>b. get_erc20_balance e (tk_chain l) (tk_contract l) address = Inr b
              \<and> tk_balance l = dflt0 b)"
  using assms
  by (auto simp: explicit_token_def Let_def map_sum_def
           split: if_splits sum.splits dest: explicit_line_fields)

lemma line_of_set: "l \<in> set (line_of r) \<longleftrightarrow> r = Inr (Some l)"
  by (auto simp: line_of_def split: sum.splits option.splits)

lemma explicit_lines_subseq:
  "subseq (map tk_contract (concat (map (\<lambda>t. line_of (explicit_token e chain address t)) ts)))
          (map (\<lambda>t. dict_get t ''contract'' JNull) ts)"
proof (induction ts)
  case Nil
  then show ?case by simp
next
  case (Cons t ts)
  show ?case
  proof (cases "explicit_token e chain address t")
    case (Inl ex)
    with Cons show ?thesis by (auto simp: line_of_def intro: list_emb_Cons)
  next
    case (Inr o1)
    show ?thesis
    proof (cases o1)
      case None
      with Cons Inr show ?thesis by (auto simp: line_of_def intro: list_emb_Cons)
    next
      case (Some l)
      with Inr have "tk_contract l = dict_get t ''contract'' JNull"
        using explicit_token_Some by blast
      with Cons Inr Some show ?thesis by (simp add: line_of_def)
    qed
  qed
qed

lemma result_tokens_shape:
  assumes "compute_balance_for_chain e st chain address coin_ids tokens = (Inr r, st')"
  shows "map tk_coin_id (take (length (kept_ids chain coin_ids)) (res_tokens r))
           = map Some (kept_ids chain coin_ids)
       \<and> drop (length (kept_ids chain coin_ids)) (res_tokens r)
           = concat (map (\<lambda>t. line_of (explicit_token e chain address t)) tokens)
       \<and> (\<forall>l\<in>set (drop (length (kept_ids chain coin_ids)) (res_tokens r)). tk_coin_id l = None)
       \<and> subseq (map tk_contract (drop (length (kept_ids chain coin_ids)) (res_tokens r)))
                 (map (\<lambda>t. dict_get t ''contract'' JNull) tokens)"
proof -
  from compute_Inr[OF assms] obtain st1 coin_toks where
    cs: "coin_section e st1 chain address coin_ids = (Inr coin_toks, st')"
    and toks: "res_tokens r =
      coin_toks @ concat (map (\<lambda>t. line_of (explicit_token e chain address t)) tokens)"
    by auto
  have ids: "map tk_coin_id coin_toks = map Some (kept_ids chain coin_ids)"
    by (rule coin_section_lines[OF cs])
  then have len: "length coin_toks = length (kept_ids chain coin_ids)"
    by (metis length_map)
  have none: "\<forall>l\<in>set (concat (map (\<lambda>t. line_of (explicit_token e chain address t)) tokens)).
                tk_coin_id l = None"
    by (auto simp: line_of_set dest: explicit_token_Some)
  show ?thesis
    using ids len none explicit_lines_subseq[of e chain address tokens]
    by (simp add: toks)
qed

subsection \<open>C5: the order of the token lines\<close>

text \<open>
  Claim C5. In a returned result, with \<open>n\<close> the number of coin ids kept (the cleaned,
  deduplicated id list without the ids whose native chain is the request's chain):
  \<^item> the first \<open>n\<close> token lines are the coin-id lines, one per kept id, in the order of the
    kept ids;
  \<^item> the remaining lines are the lines of the explicit tokens, in the order of the input
    list (an entry that is skipped or that raises contributes none): they carry no coin id
    and their contracts are a subsequence of the contracts of the input.
  The native line is not a token line: it is the field \<open>res_native\<close>, of another type.
\<close>

theorem tokens_order:
  assumes "compute_balance_for_chain e st chain address coin_ids tokens = (Inr r, st')"
  shows "map tk_coin_id (take (length (kept_ids chain coin_ids)) (res_tokens r))
           = map Some (kept_ids chain coin_ids)
       \<and> drop (length (kept_ids chain coin_ids)) (res_tokens r)
           = concat (map (\<lambda>t. line_of (explicit_token e chain address t)) tokens)
       \<and> (\<forall>l\<in>set (drop (length (kept_ids chain coin_ids)) (res_tokens r)). tk_coin_id l = None)
       \<and> subseq (map tk_contract (drop (length (kept_ids chain coin_ids)) (res_tokens r)))
                 (map (\<lambda>t. dict_get t ''contract'' JNull) tokens)"
  by (rule result_tokens_shape[OF assms])

text \<open>
  The theorem at a request with the id list \<^verbatim>\<open>["usd-coin", "ethereum", " usd-coin "]\<close> on
  chain \<^verbatim>\<open>"ethereum"\<close> and three explicit tokens, the first of which has no contract.
\<close>

theorem tokens_order_witness:
  "fst (compute_balance_for_chain env_live no_caches ''ethereum'' wallet
          [''usd-coin'', ''ethereum'', '' usd-coin '']
          [tok_hint_only, tok_usdc, tok_nochain])
     = Inr (mixed_result [usdc_explicit_line, nochain_line])
   \<and> kept_ids ''ethereum'' [''usd-coin'', ''ethereum'', '' usd-coin ''] = [''usd-coin'']
   \<and> map tk_coin_id (take 1 (res_tokens (mixed_result [usdc_explicit_line, nochain_line])))
       = [Some ''usd-coin'']
   \<and> drop 1 (res_tokens (mixed_result [usdc_explicit_line, nochain_line]))
       = [usdc_explicit_line, nochain_line]
   \<and> concat (map (\<lambda>t. line_of (explicit_token env_live ''ethereum'' wallet t))
               [tok_hint_only, tok_usdc, tok_nochain])
       = [usdc_explicit_line, nochain_line]"
  using tokens_order[OF run_pair[OF mixed_run]] mixed_run mixed_kept
  by (simp add: mixed_result_def)

subsection \<open>C8: an explicit token without a contract\<close>

text \<open>
  Claim C8. An explicit token whose \<^verbatim>\<open>contract\<close> is missing or empty (falsy) is skipped
  silently: the function returns exactly what it returns for the request without that
  entry, so the entry adds no token line and no error (and changes nothing else).
\<close>

theorem missing_contract_skipped:
  assumes "\<not> truthy (dict_get t ''contract'' JNull)"
  shows "compute_balance_for_chain e st chain address coin_ids (ts1 @ t # ts2)
           = compute_balance_for_chain e st chain address coin_ids (ts1 @ ts2)"
proof -
  have "explicit_token e chain address t = Inr None"
    using assms by (simp add: explicit_token_def Let_def)
  then show ?thesis
    by (simp add: compute_balance_for_chain_def explicit_loop_eq line_of_def error_of_def
             split: prod.splits sum.splits)
qed

text \<open>The theorem at an entry that only carries a symbol hint.\<close>

theorem missing_contract_skipped_witness:
  "\<not> truthy (dict_get tok_hint_only ''contract'' JNull)
   \<and> compute_balance_for_chain env_live no_caches ''ethereum'' wallet
       [''usd-coin'', ''ethereum'', '' usd-coin ''] [tok_hint_only, tok_usdc, tok_nochain]
     = compute_balance_for_chain env_live no_caches ''ethereum'' wallet
         [''usd-coin'', ''ethereum'', '' usd-coin ''] [tok_usdc, tok_nochain]
   \<and> fst (compute_balance_for_chain env_live no_caches ''ethereum'' wallet
         [''usd-coin'', ''ethereum'', '' usd-coin ''] [tok_usdc, tok_nochain])
     = Inr (mixed_result [usdc_explicit_line, nochain_line])"
proof -
  have h: "\<not> truthy (dict_get tok_hint_only ''contract'' JNull)"
    by (simp add: tok_hint_only_def dict_get_def)
  from missing_contract_skipped[OF h, of env_live no_caches "''ethereum''" wallet
      "[''usd-coin'', ''ethereum'', '' usd-coin '']" "[]" "[tok_usdc, tok_nochain]"]
    h mixed_run
  show ?thesis by simp
qed

subsection \<open>C9: the chain of an explicit token defaults to the request's chain\<close>




subsection \<open>C10: an explicit token on a chain key without an RPC endpoint\<close>





subsection \<open>C2: a coin id without a contract and without a quote\<close>

lemma unresolved_line_without_quote:
  "mk coin_id = None \<Longrightarrow> unresolved_line e mk coin_id = Inl (AttributeError JNull ''get'')"
  by (simp add: unresolved_line_def markets_get_def)

text \<open>
  Claim C2 says that the function never raises. With every upstream call failing, the
  request for chain \<^verbatim>\<open>"ethereum"\<close> and the coin id \<^verbatim>\<open>"bitcoin"\<close> raises \<^verbatim>\<open>AttributeError\<close>
  (\<^verbatim>\<open>'NoneType' object has no attribute 'get'\<close>): no contract is found, no quote is known,
  and line 445 evaluates \<^verbatim>\<open>m.get("name")\<close> with \<^verbatim>\<open>m\<close> being \<^verbatim>\<open>None\<close>. The other entries of
  that dictionary are guarded by \<^verbatim>\<open>if m\<close> and the branch above it reads
  \<^verbatim>\<open>markets.get(coin_id) or {}\<close>; the loop over the coin ids stands in no \<^verbatim>\<open>try\<close> block, so
  the exception leaves the function (see \<open>unresolved_line_without_quote\<close>).
\<close>

theorem coin_without_quote_raises:
  "fst (compute_balance_for_chain env_down no_caches ''ethereum'' wallet [''bitcoin''] [])
     = Inl (AttributeError JNull ''get'')
   \<and> exn_str env_down (AttributeError JNull ''get'')
       = quoted ''NoneType'' @ '' object has no attribute '' @ quoted ''get''"
  by (simp add: model_defs world_defs)

subsection \<open>C3: an unavailable RPC endpoint for chain bsc\<close>

lemma native_evm_rpc_down:
  assumes "get_native_evm_balance e chain address = Inr None"
    and "native_evm e st chain address = (Inr n, st1)"
  shows "n_balance n = Fin 0"
  using assms
  by (auto simp: native_evm_def dflt0_def split: option.splits prod.splits if_splits sum.splits)

text \<open>
  Claim C3 says that an unavailable RPC endpoint for \<^verbatim>\<open>"bsc"\<close> appends an entry containing
  \<^verbatim>\<open>native_balance_error\<close> to \<^verbatim>\<open>errors\<close>. It does not: \<^verbatim>\<open>get_native_evm_balance\<close> catches
  the failure and returns \<^verbatim>\<open>None\<close>, the native line is built with balance 0 and the price of
  the quote, and \<^verbatim>\<open>errors\<close> stays empty.
\<close>

theorem native_error_entry_counterexample:
  "get_native_evm_balance env_rpc_down ''bsc'' wallet = Inr None
   \<and> fst (compute_balance_for_chain env_rpc_down no_caches ''bsc'' wallet [] []) = Inr bsc_result
   \<and> res_errors bsc_result = []"
  by (simp add: bsc_result_def model_defs world_defs)

text \<open>
  Claim C3, amended. For chain \<^verbatim>\<open>"bsc"\<close> (configured in \<^verbatim>\<open>RPC_URLS\<close>) with an unavailable
  RPC endpoint, when the native block completes (the market quote is absent or well-formed)
  the returned result has that block's line as its native line, with balance \<^verbatim>\<open>0.0\<close>; its
  price is null when \<^verbatim>\<open>cached_markets\<close> returns nothing for \<^verbatim>\<open>binancecoin\<close> and the price of
  the first quote otherwise; and \<^verbatim>\<open>errors\<close> holds only the messages of the explicit tokens:
  the failed RPC call appends nothing.
\<close>

theorem rpc_failure_leaves_no_error:
  assumes down: "get_native_evm_balance e ''bsc'' address = Inr None"
    and url: "rpc_urls e ''bsc'' \<noteq> None"
    and block: "native_block e st ''bsc'' address = (Inr n, st1)"
    and run: "compute_balance_for_chain e st ''bsc'' address coin_ids tokens = (Inr r, st')"
  shows "res_native r = Some n \<and> n_balance n = Fin 0
       \<and> (\<not> truthy (fst (cached_markets e st [''binancecoin''])) \<longrightarrow> n_usd_price n = None)
       \<and> (truthy (fst (cached_markets e st [''binancecoin''])) \<longrightarrow>
            (\<exists>m p. py_first (fst (cached_markets e st [''binancecoin''])) = Inr m
                 \<and> current_price_of e m = Inr p \<and> n_usd_price n = Some p))
       \<and> res_errors r = concat (map (\<lambda>t. error_of e (explicit_token e ''bsc'' address t)) tokens)"
proof -
  have evm: "native_evm e st ''bsc'' address = (Inr n, st1)"
    using block url by (simp add: native_block_def)
  have z: "n_balance n = Fin 0"
    by (rule native_evm_rpc_down[OF down evm])
  have id: "native_coin_id_of ''bsc'' = Some ''binancecoin''"
    by (simp add: native_coin_id_of_def NATIVE_COIN_TO_CHAIN_def)
  have p1: "\<not> truthy (fst (cached_markets e st [''binancecoin''])) \<longrightarrow> n_usd_price n = None"
    using evm down id by (auto simp: native_evm_def split: prod.splits if_splits sum.splits)
  have p2: "truthy (fst (cached_markets e st [''binancecoin''])) \<longrightarrow>
            (\<exists>m p. py_first (fst (cached_markets e st [''binancecoin''])) = Inr m
                 \<and> current_price_of e m = Inr p \<and> n_usd_price n = Some p)"
    using evm down id by (auto simp: native_evm_def split: prod.splits if_splits sum.splits)
  from compute_Inr[OF run] block
  have "res_native r = Some n
      \<and> res_errors r = concat (map (\<lambda>t. error_of e (explicit_token e ''bsc'' address t)) tokens)"
    by (auto simp: native_of_def native_errors_def)
  with z p1 p2 show ?thesis by simp
qed

text \<open>The theorem where the RPC endpoints are down and the provider quotes BNB at 600.\<close>

theorem rpc_failure_leaves_no_error_witness:
  "get_native_evm_balance env_rpc_down ''bsc'' wallet = Inr None
   \<and> rpc_urls env_rpc_down ''bsc'' \<noteq> None
   \<and> fst (native_block env_rpc_down no_caches ''bsc'' wallet) = Inr bnb_line
   \<and> fst (compute_balance_for_chain env_rpc_down no_caches ''bsc'' wallet [] [tok_hint_only])
       = Inr bsc_result
   \<and> res_native bsc_result = Some bnb_line
   \<and> n_balance bnb_line = Fin 0
   \<and> n_usd_price bnb_line = Some (Fin 600)
   \<and> res_errors bsc_result
       = concat (map (\<lambda>t. error_of env_rpc_down (explicit_token env_rpc_down ''bsc'' wallet t))
                   [tok_hint_only])
   \<and> res_errors bsc_result = []"
proof -
  have h1: "get_native_evm_balance env_rpc_down ''bsc'' wallet = Inr None"
    by (simp add: model_defs world_defs)
  have h2: "rpc_urls env_rpc_down ''bsc'' \<noteq> None"
    by (simp add: model_defs world_defs)
  have h3: "fst (native_block env_rpc_down no_caches ''bsc'' wallet) = Inr bnb_line"
    by (simp add: model_defs world_defs)
  from rpc_failure_leaves_no_error[OF h1 h2 run_pair[OF h3] run_pair[OF bsc_run]] h1 h2 h3 bsc_run
  show ?thesis by (simp add: bsc_result_def bnb_line_def)
qed

subsection \<open>C4: deduplication of the coin ids and exclusion of the native coin\<close>

lemma fromkeys_first_seen:
  "distinct acc \<Longrightarrow> fromkeys acc xs = acc @ filter (\<lambda>y. y \<notin> set acc) (first_seen xs)"
proof (induction xs arbitrary: acc)
  case Nil
  then show ?case by simp
next
  case (Cons x xs)
  show ?case
  proof (cases "x \<in> set acc")
    case True
    then have "filter (\<lambda>y. y \<notin> set acc) (filter (\<lambda>y. y \<noteq> x) (first_seen xs))
                 = filter (\<lambda>y. y \<notin> set acc) (first_seen xs)"
      by (auto intro: filter_cong)
    with True Cons show ?thesis by simp
  next
    case False
    have "filter (\<lambda>y. y \<notin> set (acc @ [x])) (first_seen xs)
            = filter (\<lambda>y. y \<notin> set acc) (filter (\<lambda>y. y \<noteq> x) (first_seen xs))"
      by (auto intro: filter_cong)
    moreover have "distinct (acc @ [x])" using False Cons.prems by simp
    ultimately show ?thesis using False Cons.IH[of "acc @ [x]"] by simp
  qed
qed

lemma dedup_first_seen: "dedup xs = first_seen xs"
  by (simp add: dedup_def fromkeys_first_seen)

lemma first_seen_distinct: "distinct (first_seen xs)"
  by (induction xs) auto

lemma count_distinct:
  "distinct xs \<Longrightarrow> length (filter (\<lambda>y. y = c) xs) = (if c \<in> set xs then 1 else 0)"
  by (induction xs) auto

text \<open>
  Claim C4 says that the id list \<^verbatim>\<open>["eth", "eth", "sol"]\<close> on chain \<^verbatim>\<open>"ethereum"\<close> gives no
  token line for \<^verbatim>\<open>"eth"\<close>. The key of \<^verbatim>\<open>NATIVE_COIN_TO_CHAIN\<close> for that chain is
  \<^verbatim>\<open>"ethereum"\<close>, so \<^verbatim>\<open>"eth"\<close> is not excluded: with a provider that quotes both ids the
  result has one line for \<^verbatim>\<open>"eth"\<close> and one for \<^verbatim>\<open>"sol"\<close>.
\<close>

theorem eth_alias_counterexample:
  "fst (compute_balance_for_chain env_alias no_caches ''ethereum'' wallet
          [''eth'', ''eth'', ''sol''] []) = Inr alias_result
   \<and> map tk_coin_id (res_tokens alias_result) = [Some ''eth'', Some ''sol'']"
  using alias_run by (simp add: alias_result_def alias_line_def)

text \<open>
  Claim C4, amended. In a returned result the number of token lines whose coin id is \<open>c\<close> is
  1 when \<open>c\<close> is in the cleaned id list and its entry in \<^verbatim>\<open>NATIVE_COIN_TO_CHAIN\<close> is not the
  request's chain, and 0 otherwise. The cleaned id list is the list of the stripped,
  non-empty ids deduplicated keeping first occurrences. For chain \<^verbatim>\<open>"ethereum"\<close> the list
  \<^verbatim>\<open>["ethereum", "ethereum", "solana"]\<close> gives the coin ids \<^verbatim>\<open>["solana"]\<close> and the list
  \<^verbatim>\<open>["eth", "eth", "sol"]\<close> gives \<^verbatim>\<open>["eth", "sol"]\<close> (followed by the explicit lines, which
  carry no coin id).
\<close>

theorem coin_lines_once:
  assumes "compute_balance_for_chain e st chain address coin_ids tokens = (Inr r, st')"
  shows "length (filter (\<lambda>l. tk_coin_id l = Some c) (res_tokens r))
           = (if c \<in> set (clean_coin_ids coin_ids) \<and> map_of NATIVE_COIN_TO_CHAIN c \<noteq> Some chain
              then 1 else 0)
       \<and> clean_coin_ids coin_ids = first_seen (map py_strip (filter (\<lambda>cid. cid \<noteq> []) coin_ids))
       \<and> (chain = ''ethereum'' \<and> coin_ids = [''ethereum'', ''ethereum'', ''solana'']
            \<longrightarrow> map tk_coin_id (res_tokens r)
                  = [Some ''solana''] @ replicate (length (res_tokens r) - 1) None)
       \<and> (chain = ''ethereum'' \<and> coin_ids = [''eth'', ''eth'', ''sol'']
            \<longrightarrow> map tk_coin_id (res_tokens r)
                  = [Some ''eth'', Some ''sol''] @ replicate (length (res_tokens r) - 2) None)"
proof -
  let ?n = "length (kept_ids chain coin_ids)"
  from result_tokens_shape[OF assms]
  have a: "map tk_coin_id (take ?n (res_tokens r)) = map Some (kept_ids chain coin_ids)"
    and b: "\<forall>l\<in>set (drop ?n (res_tokens r)). tk_coin_id l = None"
    by simp_all
  have split: "map tk_coin_id (res_tokens r)
      = map Some (kept_ids chain coin_ids) @ map tk_coin_id (drop ?n (res_tokens r))"
    using a by (metis append_take_drop_id map_append)
  have nones: "map tk_coin_id (drop ?n (res_tokens r))
      = replicate (length (res_tokens r) - ?n) None"
  proof -
    have "map tk_coin_id (drop ?n (res_tokens r)) = map (\<lambda>l. None) (drop ?n (res_tokens r))"
      using b by simp
    then show ?thesis by (simp add: map_replicate_const)
  qed
  have ids: "map tk_coin_id (res_tokens r)
      = map Some (kept_ids chain coin_ids) @ replicate (length (res_tokens r) - ?n) None"
    using split nones by simp
  have dist: "distinct (kept_ids chain coin_ids)"
    by (simp add: kept_ids_def clean_coin_ids_def dedup_first_seen first_seen_distinct)
  have "length (filter (\<lambda>l. tk_coin_id l = Some c) (res_tokens r))
          = length (filter (\<lambda>x. x = Some c) (map tk_coin_id (res_tokens r)))"
    by (simp add: filter_map comp_def)
  also have "\<dots> = length (filter (\<lambda>y. y = c) (kept_ids chain coin_ids))"
    by (simp add: ids filter_map comp_def)
  also have "\<dots> = (if c \<in> set (kept_ids chain coin_ids) then 1 else 0)"
    by (rule count_distinct[OF dist])
  finally have count: "length (filter (\<lambda>l. tk_coin_id l = Some c) (res_tokens r))
           = (if c \<in> set (clean_coin_ids coin_ids) \<and> map_of NATIVE_COIN_TO_CHAIN c \<noteq> Some chain
              then 1 else 0)"
    by (simp add: kept_ids_def)
  have k1: "kept_ids ''ethereum'' [''ethereum'', ''ethereum'', ''solana''] = [''solana'']"
    by (simp add: kept_ids_def clean_coin_ids_def dedup_def py_strip_def is_space_def
          NATIVE_COIN_TO_CHAIN_def)
  have k2: "kept_ids ''ethereum'' [''eth'', ''eth'', ''sol''] = [''eth'', ''sol'']"
    by (simp add: kept_ids_def clean_coin_ids_def dedup_def py_strip_def is_space_def
          NATIVE_COIN_TO_CHAIN_def)
  show ?thesis
    using count ids k1 k2 by (auto simp: clean_coin_ids_def dedup_first_seen)
qed

text \<open>
  The theorem at the request with the id list \<^verbatim>\<open>["usd-coin", "ethereum", " usd-coin "]\<close> on
  chain \<^verbatim>\<open>"ethereum"\<close> (one line for \<^verbatim>\<open>"usd-coin"\<close>, none for \<^verbatim>\<open>"ethereum"\<close>) and at the
  request with \<^verbatim>\<open>["eth", "eth", "sol"]\<close> (one line for \<^verbatim>\<open>"eth"\<close>).
\<close>

theorem coin_lines_once_witness:
  "fst (compute_balance_for_chain env_live no_caches ''ethereum'' wallet
          [''usd-coin'', ''ethereum'', '' usd-coin '']
          [tok_hint_only, tok_usdc, tok_nochain])
     = Inr (mixed_result [usdc_explicit_line, nochain_line])
   \<and> clean_coin_ids [''usd-coin'', ''ethereum'', '' usd-coin ''] = [''usd-coin'', ''ethereum'']
   \<and> length (filter (\<lambda>l. tk_coin_id l = Some ''usd-coin'')
               (res_tokens (mixed_result [usdc_explicit_line, nochain_line]))) = 1
   \<and> length (filter (\<lambda>l. tk_coin_id l = Some ''ethereum'')
               (res_tokens (mixed_result [usdc_explicit_line, nochain_line]))) = 0
   \<and> fst (compute_balance_for_chain env_alias no_caches ''ethereum'' wallet
            [''eth'', ''eth'', ''sol''] []) = Inr alias_result
   \<and> length (filter (\<lambda>l. tk_coin_id l = Some ''eth'') (res_tokens alias_result)) = 1"
proof -
  have c: "clean_coin_ids [''usd-coin'', ''ethereum'', '' usd-coin ''] = [''usd-coin'', ''ethereum'']"
    by (simp add: clean_coin_ids_def dedup_def py_strip_def is_space_def)
  have c2: "clean_coin_ids [''eth'', ''eth'', ''sol''] = [''eth'', ''sol'']"
    by (simp add: clean_coin_ids_def dedup_def py_strip_def is_space_def)
  from coin_lines_once[OF run_pair[OF mixed_run], of "''usd-coin''"]
    coin_lines_once[OF run_pair[OF mixed_run], of "''ethereum''"]
    coin_lines_once[OF run_pair[OF alias_run], of "''eth''"]
    c c2 mixed_run alias_run
  show ?thesis by (simp add: NATIVE_COIN_TO_CHAIN_def)
qed

end
